theory Spec2Isabelle
  imports Complex_Main
begin

section \<open>Python values\<close>

text \<open>
  The loader in \<^verbatim>\<open>scripts/initialize_data.py\<close> reads schema-less documents. A value
  of a document is modelled by the datatype \<open>val\<close>. A string is a list of characters,
  each character standing for one code point below 256. A finite float is represented by
  the rational number it denotes; rounding to binary64 is not modelled, the three
  non-finite floats are separate constructors.
\<close>

datatype pyfloat = Fin rat | PInf | NInf | NaN

record datetime =
  dt_year :: int
  dt_month :: int
  dt_day :: int
  dt_hour :: int
  dt_minute :: int
  dt_second :: int
  dt_microsecond :: int
  tzinfo :: "int option"   \<comment> \<open>UTC offset in microseconds; \<open>None\<close> is a naive datetime\<close>

datatype val =
    VNone
  | VBool bool
  | VInt int
  | VFloat pyfloat
  | VStr string
  | VDatetime datetime
  | VList "val list"
  | VDict "(string \<times> val) list"

datatype pyerr =
    AttributeError
  | TypeError
  | ValueError
  | OverflowError
  | UniqueViolation
  | ForeignKeyViolation
  | NotNullViolation
  | CardinalityViolation
  | InFailedSqlTransaction
  | InvalidSavepoint

subsection \<open>Characters and strings\<close>

definition is_digit :: "char \<Rightarrow> bool" where
  "is_digit c = (let n = (of_char c :: nat) in 48 \<le> n \<and> n \<le> 57)"

definition digit_val :: "char \<Rightarrow> nat" where
  "digit_val c = (of_char c :: nat) - 48"

definition is_space :: "char \<Rightarrow> bool" where
  \<comment> \<open>\<open>str.isspace\<close> on the code points below 256\<close>
  "is_space c = (let n = (of_char c :: nat) in
     (9 \<le> n \<and> n \<le> 13) \<or> (28 \<le> n \<and> n \<le> 32) \<or> n = 133 \<or> n = 160)"

definition py_strip :: "string \<Rightarrow> string" where
  "py_strip s = rev (dropWhile is_space (rev (dropWhile is_space s)))"

definition lower_char :: "char \<Rightarrow> char" where
  "lower_char c = (let n = (of_char c :: nat) in
     if (65 \<le> n \<and> n \<le> 90) \<or> (192 \<le> n \<and> n \<le> 222 \<and> n \<noteq> 215)
     then char_of (n + 32) else c)"

definition upper_char :: "char \<Rightarrow> char" where
  \<comment> \<open>the code points 181, 223 and 255, whose upper case lies outside the modelled
      range, are left unchanged\<close>
  "upper_char c = (let n = (of_char c :: nat) in
     if (97 \<le> n \<and> n \<le> 122) \<or> (224 \<le> n \<and> n \<le> 254 \<and> n \<noteq> 247)
     then char_of (n - 32) else c)"

definition py_lower :: "string \<Rightarrow> string" where
  "py_lower s = map lower_char s"

definition py_upper :: "string \<Rightarrow> string" where
  "py_upper s = map upper_char s"

definition replace_comma :: "string \<Rightarrow> string" where
  \<comment> \<open>\<open>s.replace(",", ".")\<close>\<close>
  "replace_comma s = map (\<lambda>c. if c = CHR '','' then CHR ''.'' else c) s"

subsection \<open>Numeric literals: \<open>int(str)\<close> and \<open>float(str)\<close>\<close>

text \<open>
  A run of decimal digits in which single underscores may stand between two digits.
  The result is the list of digit values and the unread rest of the string.
\<close>

fun take_digits_more :: "string \<Rightarrow> nat list \<times> string" where
  "take_digits_more [] = ([], [])"
| "take_digits_more [c] = (if is_digit c then ([digit_val c], []) else ([], [c]))"
| "take_digits_more (c # d # cs) =
     (if is_digit c then
        (case take_digits_more (d # cs) of (ds, r) \<Rightarrow> (digit_val c # ds, r))
      else if c = CHR ''_'' \<and> is_digit d then
        (case take_digits_more cs of (ds, r) \<Rightarrow> (digit_val d # ds, r))
      else ([], c # d # cs))"

definition take_digits :: "string \<Rightarrow> nat list \<times> string" where
  "take_digits s = (case s of [] \<Rightarrow> ([], [])
     | c # cs \<Rightarrow> if is_digit c then take_digits_more s else ([], s))"

definition digits_value :: "nat list \<Rightarrow> nat" where
  "digits_value ds = foldl (\<lambda>acc d. 10 * acc + d) 0 ds"

definition take_sign :: "string \<Rightarrow> bool \<times> string" where
  \<comment> \<open>\<open>True\<close> for a leading minus sign\<close>
  "take_sign s = (case s of [] \<Rightarrow> (False, [])
     | c # cs \<Rightarrow> if c = CHR ''-'' then (True, cs)
                else if c = CHR ''+'' then (False, cs) else (False, s))"

definition py_int_of_str :: "string \<Rightarrow> int option" where
  \<comment> \<open>\<open>int(s)\<close> in base 10; \<open>None\<close> stands for \<open>ValueError\<close>\<close>
  "py_int_of_str s =
     (case take_sign (py_strip s) of (neg, r) \<Rightarrow>
        (case take_digits r of (ds, rest) \<Rightarrow>
           if ds = [] \<or> rest \<noteq> [] then None
           else Some (if neg then - int (digits_value ds) else int (digits_value ds))))"

definition pow10 :: "int \<Rightarrow> rat" where
  "pow10 e = (if 0 \<le> e then 10 ^ nat e else 1 / 10 ^ nat (- e))"

definition take_exponent :: "string \<Rightarrow> (int \<times> string) option" where
  \<comment> \<open>an optional exponent part; \<open>None\<close> when an exponent marker has no digits\<close>
  "take_exponent s = (case s of [] \<Rightarrow> Some (0, [])
     | c # cs \<Rightarrow>
        if c = CHR ''e'' \<or> c = CHR ''E'' then
          (case take_sign cs of (neg, r) \<Rightarrow>
             (case take_digits r of (ds, rest) \<Rightarrow>
                if ds = [] then None
                else Some (if neg then - int (digits_value ds) else int (digits_value ds), rest)))
        else Some (0, s))"

definition float_number :: "string \<Rightarrow> rat option" where
  \<comment> \<open>an unsigned decimal number: digits, an optional fraction, an optional exponent\<close>
  "float_number s =
     (case take_digits s of (ip, r1) \<Rightarrow>
        (case (case r1 of [] \<Rightarrow> ([], r1)
                 | c # cs \<Rightarrow> if c = CHR ''.'' then take_digits cs else ([], r1)) of
           (fp, r2) \<Rightarrow>
             if ip = [] \<and> fp = [] then None
             else (case take_exponent r2 of
                     None \<Rightarrow> None
                   | Some (e, rest) \<Rightarrow>
                       if rest \<noteq> [] then None
                       else Some ((of_nat (digits_value ip)
                                   + of_nat (digits_value fp) / 10 ^ length fp) * pow10 e))))"

definition py_float_of_str :: "string \<Rightarrow> pyfloat option" where
  \<comment> \<open>\<open>float(s)\<close>; \<open>None\<close> stands for \<open>ValueError\<close>\<close>
  "py_float_of_str s =
     (case take_sign (py_strip s) of (neg, r) \<Rightarrow>
        (let w = py_lower r in
         if w = ''inf'' \<or> w = ''infinity'' then Some (if neg then NInf else PInf)
         else if w = ''nan'' then Some NaN
         else (case float_number r of
                 None \<Rightarrow> None
               | Some q \<Rightarrow> Some (Fin (if neg then - q else q)))))"

definition float_le :: "pyfloat \<Rightarrow> pyfloat \<Rightarrow> bool" where
  \<comment> \<open>\<open>a <= b\<close> on floats: false as soon as one side is NaN\<close>
  "float_le a b = (case (a, b) of
       (NaN, _) \<Rightarrow> False
     | (_, NaN) \<Rightarrow> False
     | (NInf, _) \<Rightarrow> True
     | (_, PInf) \<Rightarrow> True
     | (Fin x, Fin y) \<Rightarrow> x \<le> y
     | _ \<Rightarrow> False)"

definition float_of_int_max :: int where
  \<comment> \<open>the least integer that \<open>float()\<close> refuses with OverflowError\<close>
  "float_of_int_max = 2 ^ 1024 - 2 ^ 970"

definition py_float :: "val \<Rightarrow> pyerr + pyfloat" where
  \<comment> \<open>the builtin \<open>float(x)\<close>\<close>
  "py_float v = (case v of
       VFloat f \<Rightarrow> Inr f
     | VInt i \<Rightarrow> if \<bar>i\<bar> < float_of_int_max then Inr (Fin (of_int i)) else Inl OverflowError
     | VBool b \<Rightarrow> Inr (Fin (if b then 1 else 0))
     | VStr s \<Rightarrow> (case py_float_of_str s of None \<Rightarrow> Inl ValueError | Some f \<Rightarrow> Inr f)
     | _ \<Rightarrow> Inl TypeError)"

subsection \<open>\<open>str(x)\<close>\<close>

fun nat_to_str :: "nat \<Rightarrow> string" where
  "nat_to_str n = (if n < 10 then [char_of (48 + n)]
                   else nat_to_str (n div 10) @ [char_of (48 + n mod 10)])"

definition int_to_str :: "int \<Rightarrow> string" where
  "int_to_str i = (if i < 0 then CHR ''-'' # nat_to_str (nat (- i)) else nat_to_str (nat i))"

definition pad2 :: "int \<Rightarrow> string" where
  "pad2 i = (if 0 \<le> i \<and> i < 10 then CHR ''0'' # int_to_str i else int_to_str i)"

definition pad_left :: "nat \<Rightarrow> string \<Rightarrow> string" where
  "pad_left n s = replicate (n - length s) CHR ''0'' @ s"

fun frac_digits :: "nat \<Rightarrow> rat \<Rightarrow> string" where
  \<comment> \<open>decimal digits of a fraction in [0, 1), at most the given number of them\<close>
  "frac_digits 0 r = []"
| "frac_digits (Suc k) r =
     (if r = 0 then []
      else (let d = \<lfloor>r * 10\<rfloor> in char_of (48 + nat d) # frac_digits k (r * 10 - of_int d)))"

definition float_to_str :: "pyfloat \<Rightarrow> string" where
  \<comment> \<open>\<open>repr\<close> of a float in positional notation with at most 17 fraction digits; the
      exponent notation that Python uses for very large and very small magnitudes is not
      modelled\<close>
  "float_to_str f = (case f of
       NaN \<Rightarrow> ''nan''
     | PInf \<Rightarrow> ''inf''
     | NInf \<Rightarrow> ''-inf''
     | Fin q \<Rightarrow>
         (let a = \<bar>q\<bar>; ip = \<lfloor>a\<rfloor>; fd = frac_digits 17 (a - of_int ip)
          in (if q < 0 then ''-'' else '''') @ int_to_str ip @ ''.''
             @ (if fd = [] then ''0'' else fd)))"

definition tz_to_str :: "int option \<Rightarrow> string" where
  \<comment> \<open>the UTC offset as \<open>isoformat\<close> prints it\<close>
  "tz_to_str tz = (case tz of
       None \<Rightarrow> ''''
     | Some off \<Rightarrow>
         (let a = \<bar>off\<bar>; secs = a div 1000000; us = a mod 1000000
          in (if off < 0 then ''-'' else ''+'')
             @ pad2 (secs div 3600) @ '':'' @ pad2 (secs mod 3600 div 60)
             @ (if secs mod 60 \<noteq> 0 \<or> us \<noteq> 0 then '':'' @ pad2 (secs mod 60) else '''')
             @ (if us \<noteq> 0 then ''.'' @ pad_left 6 (int_to_str us) else '''')))"

definition datetime_to_str :: "datetime \<Rightarrow> string" where
  \<comment> \<open>\<open>str(d)\<close>, that is \<open>d.isoformat(sep=' ')\<close>\<close>
  "datetime_to_str d =
     pad_left 4 (int_to_str (dt_year d)) @ ''-'' @ pad2 (dt_month d) @ ''-'' @ pad2 (dt_day d)
     @ '' '' @ pad2 (dt_hour d) @ '':'' @ pad2 (dt_minute d) @ '':'' @ pad2 (dt_second d)
     @ (if dt_microsecond d \<noteq> 0 then ''.'' @ pad_left 6 (int_to_str (dt_microsecond d)) else '''')
     @ tz_to_str (tzinfo d)"

fun join_comma :: "string list \<Rightarrow> string" where
  "join_comma [] = []"
| "join_comma [s] = s"
| "join_comma (s # t # ts) = s @ '', '' @ join_comma (t # ts)"

definition quote :: "string \<Rightarrow> string" where
  \<comment> \<open>\<open>repr\<close> of a string, without the escapes Python adds for quotes, backslashes and
      control characters\<close>
  "quote s = CHR 0x27 # s @ [CHR 0x27]"

fun py_repr :: "val \<Rightarrow> string" where
  "py_repr VNone = ''None''"
| "py_repr (VBool b) = (if b then ''True'' else ''False'')"
| "py_repr (VInt i) = int_to_str i"
| "py_repr (VFloat f) = float_to_str f"
| "py_repr (VStr s) = quote s"
| "py_repr (VDatetime d) = ''datetime.datetime('' @ datetime_to_str d @ '')''"
| "py_repr (VList xs) = ''['' @ join_comma (map py_repr xs) @ '']''"
| "py_repr (VDict kvs) =
     ''{'' @ join_comma (map (\<lambda>kv. quote (fst kv) @ '': '' @ py_repr (snd kv)) kvs) @ ''}''"

definition py_str :: "val \<Rightarrow> string" where
  \<comment> \<open>\<open>str(x)\<close>: exact on None, booleans, integers, strings and datetimes; for a list or
      a dict the elements are rendered by \<open>py_repr\<close>\<close>
  "py_str v = (case v of VStr s \<Rightarrow> s | VDatetime d \<Rightarrow> datetime_to_str d | _ \<Rightarrow> py_repr v)"

subsection \<open>Truth values and dictionaries\<close>

definition truthy :: "val \<Rightarrow> bool" where
  "truthy v = (case v of
       VNone \<Rightarrow> False
     | VBool b \<Rightarrow> b
     | VInt i \<Rightarrow> i \<noteq> 0
     | VFloat f \<Rightarrow> f \<noteq> Fin 0
     | VStr s \<Rightarrow> s \<noteq> []
     | VDatetime d \<Rightarrow> True
     | VList xs \<Rightarrow> xs \<noteq> []
     | VDict kvs \<Rightarrow> kvs \<noteq> [])"

definition dict_get :: "(string \<times> val) list \<Rightarrow> string \<Rightarrow> val" where
  \<comment> \<open>\<open>d.get(key)\<close> on a dict\<close>
  "dict_get d k = (case map_of d k of None \<Rightarrow> VNone | Some v \<Rightarrow> v)"

definition py_get :: "val \<Rightarrow> string \<Rightarrow> pyerr + val" where
  \<comment> \<open>\<open>x.get(key)\<close> on any value: only a dict has the method\<close>
  "py_get v k = (case v of VDict d \<Rightarrow> Inr (dict_get d k) | _ \<Rightarrow> Inl AttributeError)"

definition or_empty :: "val \<Rightarrow> val" where
  \<comment> \<open>\<open>x or {}\<close>\<close>
  "or_empty v = (if truthy v then v else VDict [])"

definition is_dict :: "val \<Rightarrow> bool" where
  "is_dict v = (case v of VDict _ \<Rightarrow> True | _ \<Rightarrow> False)"

fun get_nested :: "val \<Rightarrow> string list \<Rightarrow> val \<Rightarrow> val" where
  "get_nested cur [] dflt = cur"
| "get_nested cur (key # path) dflt =
     (case cur of
        VDict d \<Rightarrow> (case map_of d key of None \<Rightarrow> dflt | Some v \<Rightarrow> get_nested v path dflt)
      | _ \<Rightarrow> dflt)"

subsection \<open>Numeric normalizers\<close>

definition py_int_of_float :: "pyfloat \<Rightarrow> pyerr + int" where
  \<comment> \<open>\<open>int(f)\<close>: truncation towards zero\<close>
  "py_int_of_float f = (case f of
       Fin q \<Rightarrow> Inr (if 0 \<le> q then \<lfloor>q\<rfloor> else - \<lfloor>- q\<rfloor>)
     | NaN \<Rightarrow> Inl ValueError
     | _ \<Rightarrow> Inl OverflowError)"

definition py_int :: "val \<Rightarrow> pyerr + int" where
  \<comment> \<open>the builtin \<open>int(x)\<close>\<close>
  "py_int v = (case v of
       VInt i \<Rightarrow> Inr i
     | VBool b \<Rightarrow> Inr (if b then 1 else 0)
     | VFloat f \<Rightarrow> py_int_of_float f
     | VStr s \<Rightarrow> (case py_int_of_str s of None \<Rightarrow> Inl ValueError | Some i \<Rightarrow> Inr i)
     | _ \<Rightarrow> Inl TypeError)"

definition first_present :: "(string \<times> val) list \<Rightarrow> string list \<Rightarrow> val option" where
  \<comment> \<open>the value under the first of the keys that the dict contains\<close>
  "first_present d keys = (case filter (\<lambda>k. map_of d k \<noteq> None) keys of
       [] \<Rightarrow> None
     | k # _ \<Rightarrow> map_of d k)"

definition int_of_text :: "string \<Rightarrow> int option" where
  \<comment> \<open>\<open>int(float(s.replace(",", ".")))\<close>, \<open>None\<close> when either conversion raises\<close>
  "int_of_text s = (case py_float_of_str (replace_comma s) of
       None \<Rightarrow> None
     | Some f \<Rightarrow> (case py_int_of_float f of Inl e \<Rightarrow> None | Inr i \<Rightarrow> Some i))"

definition as_int :: "val \<Rightarrow> int option" where
  "as_int value = (case value of
       VNone \<Rightarrow> None
     | VDict d \<Rightarrow>
         (case first_present d [''$numberInt'', ''$numberLong'', ''$numberDouble''] of
            Some x \<Rightarrow> int_of_text (py_str x)
          | None \<Rightarrow> None)
     | VStr s \<Rightarrow> int_of_text s
     | _ \<Rightarrow> (case py_int value of Inl e \<Rightarrow> None | Inr i \<Rightarrow> Some i))"

definition as_float :: "val \<Rightarrow> pyfloat option" where
  "as_float value = (case value of
       VNone \<Rightarrow> None
     | VDict d \<Rightarrow>
         (case first_present d
                 [''$numberDouble'', ''$numberDecimal'', ''$numberInt'', ''$numberLong''] of
            Some x \<Rightarrow> py_float_of_str (replace_comma (py_str x))
          | None \<Rightarrow> None)
     | VStr s \<Rightarrow> py_float_of_str (replace_comma s)
     | _ \<Rightarrow> (case py_float value of Inl e \<Rightarrow> None | Inr f \<Rightarrow> Some f))"

definition normalize_text :: "val \<Rightarrow> string option" where
  "normalize_text value = (case value of
       VNone \<Rightarrow> None
     | _ \<Rightarrow> (let s = py_strip (py_str value) in if s \<noteq> [] then Some s else None))"

definition opt_or :: "'a option \<Rightarrow> 'a option \<Rightarrow> 'a option" where
  \<comment> \<open>\<open>a or b\<close> where a present value is known to be truthy\<close>
  "opt_or a b = (case a of None \<Rightarrow> b | Some x \<Rightarrow> Some x)"

subsection \<open>Dates\<close>

text \<open>
  \<open>datetime.fromisoformat\<close> is modelled on the format that \<open>isoformat()\<close> emits,
  \<^verbatim>\<open>YYYY-MM-DD[*HH[:MM[:SS[.fff[fff]]]][+HH:MM[:SS[.ffffff]]]]\<close>, which every CPython
  from 3.7 on accepts with the same result (later versions accept further spellings).
  A result \<open>None\<close> stands for \<open>ValueError\<close>.
\<close>

record date =
  d_year :: int
  d_month :: int
  d_day :: int

definition number_of :: "string \<Rightarrow> int option" where
  \<comment> \<open>a non-empty string of decimal digits\<close>
  "number_of s = (if s \<noteq> [] \<and> list_all is_digit s
                  then Some (int (digits_value (map digit_val s))) else None)"

definition is_leap :: "int \<Rightarrow> bool" where
  "is_leap y = (y mod 4 = 0 \<and> (y mod 100 \<noteq> 0 \<or> y mod 400 = 0))"

definition days_in_month :: "int \<Rightarrow> int \<Rightarrow> int" where
  "days_in_month y m =
     (if m = 2 then (if is_leap y then 29 else 28)
      else if m = 4 \<or> m = 6 \<or> m = 9 \<or> m = 11 then 30 else 31)"

definition valid_date :: "int \<Rightarrow> int \<Rightarrow> int \<Rightarrow> bool" where
  "valid_date y m d = (1 \<le> y \<and> y \<le> 9999 \<and> 1 \<le> m \<and> m \<le> 12
                       \<and> 1 \<le> d \<and> d \<le> days_in_month y m)"

definition valid_time :: "int \<Rightarrow> int \<Rightarrow> int \<Rightarrow> int \<Rightarrow> bool" where
  "valid_time h mi s us = (0 \<le> h \<and> h < 24 \<and> 0 \<le> mi \<and> mi < 60 \<and> 0 \<le> s \<and> s < 60
                           \<and> 0 \<le> us \<and> us < 1000000)"

definition parse_isoformat_date :: "string \<Rightarrow> (int \<times> int \<times> int) option" where
  \<comment> \<open>the first ten characters: \<open>YYYY-MM-DD\<close>\<close>
  "parse_isoformat_date s =
     (if length s \<noteq> 10 \<or> s ! 4 \<noteq> CHR ''-'' \<or> s ! 7 \<noteq> CHR ''-'' then None
      else (case (number_of (take 4 s), number_of (take 2 (drop 5 s)), number_of (drop 8 s)) of
              (Some y, Some m, Some d) \<Rightarrow> Some (y, m, d)
            | _ \<Rightarrow> None))"

definition parse_fraction :: "string \<Rightarrow> int option" where
  \<comment> \<open>what follows the seconds: nothing, or a point and three or six digits\<close>
  "parse_fraction s = (case s of
       [] \<Rightarrow> Some 0
     | c # ds \<Rightarrow>
        if c \<noteq> CHR ''.'' then None
        else if length ds = 3 then map_option (\<lambda>n. n * 1000) (number_of ds)
        else if length ds = 6 then number_of ds
        else None)"

definition parse_hh_mm_ss_ff :: "string \<Rightarrow> (int \<times> int \<times> int \<times> int) option" where
  \<comment> \<open>\<open>HH[:MM[:SS[.fff[fff]]]]\<close>\<close>
  "parse_hh_mm_ss_ff s =
     (case number_of (take 2 s) of
        None \<Rightarrow> None
      | Some h \<Rightarrow>
         if length s < 2 then None
         else if length s = 2 then Some (h, 0, 0, 0)
         else if s ! 2 \<noteq> CHR '':'' then None
         else (case number_of (take 2 (drop 3 s)) of
                 None \<Rightarrow> None
               | Some mi \<Rightarrow>
                  if length s < 5 then None
                  else if length s = 5 then Some (h, mi, 0, 0)
                  else if s ! 5 \<noteq> CHR '':'' then None
                  else (case number_of (take 2 (drop 6 s)) of
                          None \<Rightarrow> None
                        | Some sec \<Rightarrow>
                           if length s < 8 then None
                           else (case parse_fraction (drop 8 s) of
                                   None \<Rightarrow> None
                                 | Some us \<Rightarrow> Some (h, mi, sec, us)))))"

definition is_sign :: "char \<Rightarrow> bool" where
  "is_sign c = (c = CHR ''+'' \<or> c = CHR ''-'')"

definition parse_tz :: "string \<Rightarrow> int option option" where
  \<comment> \<open>the part from the first sign on; the outer \<open>None\<close> is the error, \<open>Some None\<close> is
      no offset, \<open>Some (Some off)\<close> an offset in microseconds\<close>
  "parse_tz s = (case s of
       [] \<Rightarrow> Some None
     | c # tzstr \<Rightarrow>
        if length tzstr \<noteq> 5 \<and> length tzstr \<noteq> 8 \<and> length tzstr \<noteq> 15 then None
        else (case parse_hh_mm_ss_ff tzstr of
                None \<Rightarrow> None
              | Some (h, mi, sec, us) \<Rightarrow>
                 (let off = ((h * 60 + mi) * 60 + sec) * 1000000 + us
                  in if 86400000000 \<le> off then None
                     else Some (Some (if c = CHR ''-'' then - off else off)))))"

definition parse_isoformat_time :: "string \<Rightarrow> ((int \<times> int \<times> int \<times> int) \<times> int option) option" where
  "parse_isoformat_time tstr =
     (if length tstr < 2 then None
      else (case parse_hh_mm_ss_ff (takeWhile (\<lambda>c. \<not> is_sign c) tstr) of
              None \<Rightarrow> None
            | Some t \<Rightarrow>
               (case parse_tz (dropWhile (\<lambda>c. \<not> is_sign c) tstr) of
                  None \<Rightarrow> None
                | Some tz \<Rightarrow> Some (t, tz))))"

definition fromisoformat :: "string \<Rightarrow> datetime option" where
  "fromisoformat s =
     (case parse_isoformat_date (take 10 s) of
        None \<Rightarrow> None
      | Some (y, m, d) \<Rightarrow>
         (case (if drop 11 s = [] then Some ((0, 0, 0, 0), None)
                else parse_isoformat_time (drop 11 s)) of
            None \<Rightarrow> None
          | Some ((h, mi, sec, us), tz) \<Rightarrow>
             if valid_date y m d \<and> valid_time h mi sec us
             then Some \<lparr>dt_year = y, dt_month = m, dt_day = d, dt_hour = h, dt_minute = mi,
                        dt_second = sec, dt_microsecond = us, tzinfo = tz\<rparr>
             else None))"

definition days_from_civil :: "int \<Rightarrow> int \<Rightarrow> int \<Rightarrow> int" where
  \<comment> \<open>days from 1970-01-01 to the given day of the proleptic Gregorian calendar\<close>
  "days_from_civil y m d =
     (let y' = (if m \<le> 2 then y - 1 else y);
          era = y' div 400;
          yoe = y' - era * 400;
          doy = (153 * (if m > 2 then m - 3 else m + 9) + 2) div 5 + d - 1;
          doe = yoe * 365 + yoe div 4 - yoe div 100 + doy
      in era * 146097 + doe - 719468)"

definition civil_from_days :: "int \<Rightarrow> int \<times> int \<times> int" where
  "civil_from_days z0 =
     (let z = z0 + 719468;
          era = z div 146097;
          doe = z - era * 146097;
          yoe = (doe - doe div 1460 + doe div 36524 - doe div 146096) div 365;
          doy = doe - (365 * yoe + yoe div 4 - yoe div 100);
          mp = (5 * doy + 2) div 153;
          d = doy - (153 * mp + 2) div 5 + 1;
          m = (if mp < 10 then mp + 3 else mp - 9);
          y = yoe + era * 400
      in (if m \<le> 2 then y + 1 else y, m, d))"

definition fromtimestamp_millis :: "int \<Rightarrow> datetime option" where
  \<comment> \<open>\<open>datetime.fromtimestamp(millis / 1000.0, tz=timezone.utc)\<close>; \<open>None\<close> when the year
      leaves 1..9999 and the call raises. The division is exact here, the rounding of the
      float quotient is not modelled.\<close>
  "fromtimestamp_millis millis =
     (let days = millis div 86400000;
          ms = millis mod 86400000
      in (case civil_from_days days of (y, m, d) \<Rightarrow>
            if 1 \<le> y \<and> y \<le> 9999
            then Some \<lparr>dt_year = y, dt_month = m, dt_day = d,
                       dt_hour = ms div 3600000, dt_minute = ms mod 3600000 div 60000,
                       dt_second = ms mod 60000 div 1000,
                       dt_microsecond = ms mod 1000 * 1000, tzinfo = Some 0\<rparr>
            else None))"

definition replace_Z :: "string \<Rightarrow> string" where
  \<comment> \<open>\<open>s.replace("Z", "+00:00")\<close>\<close>
  "replace_Z s = concat (map (\<lambda>c. if c = CHR ''Z'' then ''+00:00'' else [c]) s)"

definition parse_mongo_date :: "val \<Rightarrow> datetime option" where
  "parse_mongo_date value = (case value of
       VNone \<Rightarrow> None
     | VDatetime d \<Rightarrow> Some (if tzinfo d \<noteq> None then d else d\<lparr>tzinfo := Some 0\<rparr>)
     | VDict kv \<Rightarrow>
         (case map_of kv ''$date'' of
            None \<Rightarrow> None
          | Some inner \<Rightarrow>
             (case inner of
                VStr s \<Rightarrow> fromisoformat (replace_Z s)
              | VDict ikv \<Rightarrow>
                 (case map_of ikv ''$numberLong'' of
                    None \<Rightarrow> None
                  | Some n \<Rightarrow> (case py_int n of
                                 Inl e \<Rightarrow> None
                               | Inr millis \<Rightarrow> fromtimestamp_millis millis))
              | _ \<Rightarrow> None))
     | VStr s \<Rightarrow> fromisoformat (replace_Z s)
     | _ \<Rightarrow> None)"

definition date_of :: "datetime \<Rightarrow> date" where
  \<comment> \<open>\<open>d.date()\<close>\<close>
  "date_of d = \<lparr>d_year = dt_year d, d_month = dt_month d, d_day = dt_day d\<rparr>"

definition utc_micros :: "datetime \<Rightarrow> int option" where
  \<comment> \<open>the instant of an aware datetime, in microseconds since 1970-01-01T00:00:00 UTC\<close>
  "utc_micros d = (case tzinfo d of
       None \<Rightarrow> None
     | Some off \<Rightarrow>
         Some ((((days_from_civil (dt_year d) (dt_month d) (dt_day d) * 24 + dt_hour d) * 60
                 + dt_minute d) * 60 + dt_second d) * 1000000 + dt_microsecond d - off))"

definition datetime_eq :: "datetime \<Rightarrow> datetime \<Rightarrow> bool" where
  \<comment> \<open>Python's \<open>a == b\<close> on datetimes: two aware values are equal when they denote the same
      instant, two naive values when their fields agree, and a naive value never equals
      an aware one\<close>
  "datetime_eq a b = (case (tzinfo a, tzinfo b) of
       (None, None) \<Rightarrow> a = b
     | (Some x, Some y) \<Rightarrow> utc_micros a = utc_micros b
     | _ \<Rightarrow> False)"

subsection \<open>Text normalizers\<close>

definition truncate_text :: "string option \<Rightarrow> nat \<Rightarrow> string option" where
  "truncate_text value max_length = (case value of
       None \<Rightarrow> None
     | Some s \<Rightarrow> Some (if length s > max_length then take max_length s else s))"

subsection \<open>Range sanitizers\<close>

definition sanitize_year :: "int option \<Rightarrow> int option" where
  "sanitize_year value = (case value of
       None \<Rightarrow> None
     | Some y \<Rightarrow> if 1800 \<le> y \<and> y \<le> 2100 then Some y else None)"

definition sanitize_age_rating :: "int option \<Rightarrow> int option" where
  "sanitize_age_rating value = (case value of
       None \<Rightarrow> None
     | Some a \<Rightarrow> if 0 \<le> a \<and> a \<le> 21 then Some a else None)"

definition rating_in_range :: "pyfloat \<Rightarrow> bool" where
  \<comment> \<open>\<open>0.0 <= f <= 10.0\<close>\<close>
  "rating_in_range f = (float_le (Fin 0) f \<and> float_le f (Fin 10))"

definition sanitize_rating :: "val \<Rightarrow> pyerr + val option" where
  \<comment> \<open>only the conversion of a string is inside the \<open>try\<close>; the final \<open>float(value)\<close>
      is not, so its error leaves the function\<close>
  "sanitize_rating value = (case value of
       VNone \<Rightarrow> Inr None
     | VStr s \<Rightarrow> (case py_float_of_str (replace_comma s) of
                    None \<Rightarrow> Inr None
                  | Some f \<Rightarrow> Inr (if rating_in_range f then Some (VFloat f) else None))
     | _ \<Rightarrow> (case py_float value of
               Inl e \<Rightarrow> Inl e
             | Inr f \<Rightarrow> Inr (if rating_in_range f then Some value else None)))"

section \<open>The relational store\<close>

text \<open>
  The loader talks to PostgreSQL through one connection with autocommit off. The tables
  are lists of rows. The schema is not part of the script; what the script relies on is
  modelled here:
  \<^item> identifiers of countries, genres, people, distributors, seasons and of movies without
    an explicit id come from sequences, and a sequence is never rolled back;
  \<^item> \<open>movies.id\<close> and the name of a country or genre are unique;
  \<^item> a failed statement aborts the transaction: every later statement is refused until
    a \<open>ROLLBACK TO SAVEPOINT\<close>;
  \<^item> the columns \<open>created_at\<close> and \<open>updated_at\<close> are left out.
  Modelled from the spec: the foreign keys of the child and association tables
  ("referential integrity", "schema enforced") and the uniqueness that makes an
  \<open>ON CONFLICT DO NOTHING\<close> insert a no-op. Both are parameters of the store, held in
  \<open>schema\<close>.
\<close>

record person_row =
  p_id :: int
  p_name :: string
  p_en_name :: "string option"
  p_birth_date :: "date option"
  p_death_date :: "date option"
  p_birth_place :: "string option"
  p_photo_url :: "string option"

type_synonym money = "int option \<times> string option"   \<comment> \<open>value, currency\<close>

record movie_row =
  m_id :: int
  m_title :: string
  m_alternative_name :: "string option"
  m_en_name :: "string option"
  m_description :: "string option"
  m_age_rating :: "int option"
  m_movie_length :: "int option"
  m_slogan :: "string option"
  m_type :: "string option"
  m_year :: "int option"
  m_premiere_world :: "date option"
  m_premiere_russia :: "date option"
  m_ratings :: "val option \<times> val option \<times> val option \<times> val option"
     \<comment> \<open>kp, imdb, film critics, russian film critics\<close>
  m_votes :: "int option \<times> int option \<times> int option \<times> int option"
  m_budget :: money
  m_fees :: "money \<times> money \<times> money"   \<comment> \<open>world, russia, usa\<close>
  m_poster :: "string option \<times> string option"   \<comment> \<open>url, preview url\<close>
  m_backdrop :: "string option \<times> string option"
  m_external :: "string option \<times> int option \<times> string option"   \<comment> \<open>imdb, tmdb, kpHD\<close>

record season_row =
  s_id :: int
  s_movie_id :: int
  s_number :: int
  s_episodes_count :: "int option"
  s_air_date :: "date option"
  s_poster_url :: "string option"
  s_description :: "string option"

type_synonym named_row = "int \<times> string"   \<comment> \<open>id, name\<close>
type_synonym distributor_row = "int \<times> string \<times> string option"   \<comment> \<open>id, name, release name\<close>
type_synonym link_row = "int \<times> int"   \<comment> \<open>movie id, country or genre id\<close>
type_synonym mp_row = "int \<times> int \<times> int option \<times> string option \<times> int"
  \<comment> \<open>movie id, person id, role id, character name, order index\<close>
type_synonym fact_row = "int \<times> string \<times> string \<times> bool"
  \<comment> \<open>movie id, text, type, spoiler flag\<close>
type_synonym video_row = "int \<times> string \<times> string option \<times> string option \<times> string option"
  \<comment> \<open>movie id, url, name, site, type\<close>
type_synonym md_row = "int \<times> int \<times> string \<times> date option"
  \<comment> \<open>movie id, distributor id, distribution type, release date\<close>
type_synonym episode_row =
  "int \<times> int \<times> string option \<times> string option \<times> string option \<times> date option
   \<times> int option \<times> string option \<times> string option"
  \<comment> \<open>season id, episode number, title, english title, synopsis, air date, runtime,
      still url, still preview url\<close>

record tables =
  countries :: "named_row list"
  genres :: "named_row list"
  roles :: "named_row list"
  people :: "person_row list"
  distributors :: "distributor_row list"
  movies :: "movie_row list"
  movie_countries :: "link_row list"
  movie_genres :: "link_row list"
  movie_people :: "mp_row list"
  movie_facts :: "fact_row list"
  movie_videos :: "video_row list"
  movie_distributors :: "md_row list"
  seasons :: "season_row list"
  episodes :: "episode_row list"

record sequences =
  next_country :: int
  next_genre :: int
  next_person :: int
  next_distributor :: int
  next_movie :: int
  next_season :: int

record schema =
  fk_enforced :: bool
  mp_dup :: "mp_row \<Rightarrow> mp_row \<Rightarrow> bool"
  fact_dup :: "fact_row \<Rightarrow> fact_row \<Rightarrow> bool"
  video_dup :: "video_row \<Rightarrow> video_row \<Rightarrow> bool"
  md_dup :: "md_row \<Rightarrow> md_row \<Rightarrow> bool"

record stats =
  people_inserted :: nat
  people_updated :: nat
  movies_inserted :: nat
  movies_updated :: nat
  seasons_inserted :: nat
  seasons_updated :: nat
  countries_created :: nat
  genres_created :: nat
  distributors_created :: nat
  movie_countries_linked :: nat
  movie_genres_linked :: nat
  movie_people_linked :: nat
  movie_facts_inserted :: nat
  movie_videos_inserted :: nat

text \<open>
  \<open>PgRepo\<close>: the connection (tables, sequences, transaction state, savepoints), the
  in-process caches and the statistics counters. \<open>clock\<close> stands for \<open>time.time_ns()\<close>,
  from which the savepoint names are made.
\<close>

record pg =
  sch :: schema
  tabs :: tables
  seqs :: sequences
  aborted :: bool
  savepoints :: "(nat \<times> tables) list"
  cache_countries :: "string \<rightharpoonup> int"
  cache_genres :: "string \<rightharpoonup> int"
  cache_roles :: "string \<rightharpoonup> int"
  cache_distributors :: "string \<rightharpoonup> int"
  person_cache :: "(string \<times> string option) \<rightharpoonup> int"
  stats :: stats
  clock :: nat

subsection \<open>Computations that may raise\<close>

type_synonym 'a action = "pg \<Rightarrow> (pyerr + 'a) \<times> pg"

definition ret :: "'a \<Rightarrow> 'a action" where
  "ret x s = (Inr x, s)"

definition raise :: "pyerr \<Rightarrow> 'a action" where
  "raise e s = (Inl e, s)"

definition andthen :: "'a action \<Rightarrow> ('a \<Rightarrow> 'b action) \<Rightarrow> 'b action" where
  \<comment> \<open>run the first computation; an exception skips the second\<close>
  "andthen m f s = (case m s of (Inl e, s') \<Rightarrow> (Inl e, s') | (Inr x, s') \<Rightarrow> f x s')"

definition pure :: "pyerr + 'a \<Rightarrow> 'a action" where
  "pure r s = (r, s)"

definition modify :: "(pg \<Rightarrow> pg) \<Rightarrow> unit action" where
  "modify f s = (Inr (), f s)"

subsection \<open>Statements\<close>

definition statement :: "(tables \<Rightarrow> sequences \<Rightarrow> (pyerr + 'a \<times> tables) \<times> sequences) \<Rightarrow> 'a action" where
  \<comment> \<open>\<open>cursor.execute\<close>: refused in an aborted transaction; an error aborts the
      transaction and changes no table\<close>
  "statement f s =
     (if aborted s then (Inl InFailedSqlTransaction, s)
      else (case f (tabs s) (seqs s) of
              (Inl e, q) \<Rightarrow> (Inl e, s\<lparr>seqs := q, aborted := True\<rparr>)
            | (Inr (x, t), q) \<Rightarrow> (Inr x, s\<lparr>tabs := t, seqs := q\<rparr>)))"

definition query :: "(tables \<Rightarrow> 'a) \<Rightarrow> 'a action" where
  \<comment> \<open>a \<open>SELECT\<close>\<close>
  "query f = statement (\<lambda>t q. (Inr (f t, t), q))"

definition savepoint :: "nat \<Rightarrow> unit action" where
  \<comment> \<open>\<open>SAVEPOINT name\<close>\<close>
  "savepoint name s =
     (if aborted s then (Inl InFailedSqlTransaction, s)
      else (Inr (), s\<lparr>savepoints := (name, tabs s) # savepoints s\<rparr>))"

definition rollback_to_savepoint :: "nat \<Rightarrow> unit action" where
  \<comment> \<open>\<open>ROLLBACK TO SAVEPOINT name\<close>: the tables return to their state at the savepoint,
      which stays; savepoints set after it are gone; the transaction is usable again\<close>
  "rollback_to_savepoint name s =
     (case dropWhile (\<lambda>sp. fst sp \<noteq> name) (savepoints s) of
        [] \<Rightarrow> (Inl InvalidSavepoint, s\<lparr>aborted := True\<rparr>)
      | sp # rest \<Rightarrow> (Inr (), s\<lparr>tabs := snd sp, savepoints := sp # rest, aborted := False\<rparr>))"

definition release_savepoint :: "nat \<Rightarrow> unit action" where
  \<comment> \<open>\<open>RELEASE SAVEPOINT name\<close>\<close>
  "release_savepoint name s =
     (if aborted s then (Inl InFailedSqlTransaction, s)
      else (case dropWhile (\<lambda>sp. fst sp \<noteq> name) (savepoints s) of
              [] \<Rightarrow> (Inl InvalidSavepoint, s\<lparr>aborted := True\<rparr>)
            | sp # rest \<Rightarrow> (Inr (), s\<lparr>savepoints := rest\<rparr>)))"

definition time_ns :: "pg \<Rightarrow> nat \<times> pg" where
  \<comment> \<open>\<open>time.time_ns()\<close>: successive calls give increasing values\<close>
  "time_ns s = (clock s, s\<lparr>clock := Suc (clock s)\<rparr>)"

section \<open>Entity resolvers\<close>

definition add_stats :: "(stats \<Rightarrow> stats) \<Rightarrow> unit action" where
  "add_stats f = modify (\<lambda>s. s\<lparr>stats := f (stats s)\<rparr>)"

definition get_single_value :: "(tables \<Rightarrow> int list) \<Rightarrow> int option action" where
  \<comment> \<open>\<open>_get_single_value\<close>: the first column of the first row, if there is a row\<close>
  "get_single_value sel = query (\<lambda>t. case sel t of [] \<Rightarrow> None | x # _ \<Rightarrow> Some x)"

definition id_truthy :: "int option \<Rightarrow> bool" where
  \<comment> \<open>\<open>if x:\<close> on an identifier that may be None\<close>
  "id_truthy x = (case x of None \<Rightarrow> False | Some i \<Rightarrow> i \<noteq> 0)"

definition truthy_id :: "int option \<Rightarrow> int option" where
  \<comment> \<open>the identifier when \<open>if x:\<close> holds\<close>
  "truthy_id x = (case x of None \<Rightarrow> None | Some i \<Rightarrow> if i = 0 then None else Some i)"

definition insert_named ::
  "(tables \<Rightarrow> named_row list) \<Rightarrow> (named_row list \<Rightarrow> tables \<Rightarrow> tables) \<Rightarrow>
   (sequences \<Rightarrow> int) \<Rightarrow> (int \<Rightarrow> sequences \<Rightarrow> sequences) \<Rightarrow> string \<Rightarrow> int action" where
  \<comment> \<open>\<open>INSERT INTO t(name) VALUES (%s) RETURNING id\<close> on a table with a unique name\<close>
  "insert_named get put nxt set_nxt name =
     statement (\<lambda>t q.
       let i = nxt q; q' = set_nxt (i + 1) q
       in if name \<in> snd ` set (get t) then (Inl UniqueViolation, q')
          else (Inr (i, put (get t @ [(i, name)]) t), q'))"

definition name_key :: "string \<Rightarrow> string" where
  \<comment> \<open>the key under which a country or genre name is cached and stored: the stripped
      name, cut to 100 characters\<close>
  "name_key name0 = (case truncate_text (Some (py_strip name0)) 100 of None \<Rightarrow> [] | Some n \<Rightarrow> n)"

definition get_or_create_country :: "string \<Rightarrow> int option action" where
  "get_or_create_country name0 =
     (case truncate_text (Some (py_strip name0)) 100 of
        None \<Rightarrow> ret None
      | Some name \<Rightarrow>
         if name = [] then ret None
         else (\<lambda>s. case cache_countries s name of
                 Some cid \<Rightarrow> (Inr (Some cid), s)
               | None \<Rightarrow>
                  andthen (get_single_value
                             (\<lambda>t. map fst (filter (\<lambda>r. snd r = name) (countries t))))
                    (\<lambda>country_id.
                       if id_truthy country_id then
                         andthen (modify (\<lambda>s. s\<lparr>cache_countries :=
                                     (cache_countries s)(name := country_id)\<rparr>))
                           (\<lambda>_. ret country_id)
                       else
                         andthen (insert_named countries (\<lambda>r t. t\<lparr>countries := r\<rparr>)
                                    next_country (\<lambda>i q. q\<lparr>next_country := i\<rparr>) name)
                           (\<lambda>cid.
                              andthen (modify (\<lambda>s. s\<lparr>cache_countries :=
                                          (cache_countries s)(name \<mapsto> cid)\<rparr>))
                                (\<lambda>_. andthen (add_stats (\<lambda>st. st\<lparr>countries_created :=
                                                   countries_created st + 1\<rparr>))
                                        (\<lambda>_. ret (Some cid))))) s))"

definition get_or_create_genre :: "string \<Rightarrow> int option action" where
  "get_or_create_genre name0 =
     (case truncate_text (Some (py_strip name0)) 100 of
        None \<Rightarrow> ret None
      | Some name \<Rightarrow>
         if name = [] then ret None
         else (\<lambda>s. case cache_genres s name of
                 Some gid \<Rightarrow> (Inr (Some gid), s)
               | None \<Rightarrow>
                  andthen (get_single_value
                             (\<lambda>t. map fst (filter (\<lambda>r. snd r = name) (genres t))))
                    (\<lambda>genre_id.
                       if id_truthy genre_id then
                         andthen (modify (\<lambda>s. s\<lparr>cache_genres :=
                                     (cache_genres s)(name := genre_id)\<rparr>))
                           (\<lambda>_. ret genre_id)
                       else
                         andthen (insert_named genres (\<lambda>r t. t\<lparr>genres := r\<rparr>)
                                    next_genre (\<lambda>i q. q\<lparr>next_genre := i\<rparr>) name)
                           (\<lambda>gid.
                              andthen (modify (\<lambda>s. s\<lparr>cache_genres :=
                                          (cache_genres s)(name \<mapsto> gid)\<rparr>))
                                (\<lambda>_. andthen (add_stats (\<lambda>st. st\<lparr>genres_created :=
                                                   genres_created st + 1\<rparr>))
                                        (\<lambda>_. ret (Some gid))))) s))"

definition get_role_id :: "string \<Rightarrow> int option action" where
  "get_role_id role_name =
     (if role_name = [] then ret None
      else (\<lambda>s. case cache_roles s role_name of
              Some rid \<Rightarrow> (Inr (Some rid), s)
            | None \<Rightarrow>
               andthen (get_single_value
                          (\<lambda>t. map fst (filter (\<lambda>r. snd r = role_name) (roles t))))
                 (\<lambda>role_id.
                    if id_truthy role_id then
                      andthen (modify (\<lambda>s. s\<lparr>cache_roles :=
                                  (cache_roles s)(role_name := role_id)\<rparr>))
                        (\<lambda>_. ret role_id)
                    else ret role_id) s))"

subsection \<open>People\<close>

definition strip_comma_space :: "string \<Rightarrow> string" where
  \<comment> \<open>\<open>s.strip(", ")\<close>\<close>
  "strip_comma_space s =
     (let p = (\<lambda>c. c = CHR '','' \<or> c = CHR '' '')
      in rev (dropWhile p (rev (dropWhile p s))))"

definition birth_place_of :: "val \<Rightarrow> string option" where
  \<comment> \<open>the birth place from \<open>person.get("birthPlace")\<close>\<close>
  "birth_place_of v =
     (case (if truthy v then v else VList []) of
        VList items \<Rightarrow>
          (let parts = map (\<lambda>item. case normalize_text (case item of VDict d \<Rightarrow> dict_get d ''value''
                                                            | _ \<Rightarrow> VNone) of
                                      None \<Rightarrow> [] | Some t \<Rightarrow> t)
                           (filter is_dict items);
               joined = strip_comma_space (join_comma parts)
           in if joined \<noteq> [] then truncate_text (Some joined) 200 else None)
      | _ \<Rightarrow> None)"

definition coalesce_text :: "string option \<Rightarrow> string" where
  \<comment> \<open>\<open>COALESCE(x, '')\<close>\<close>
  "coalesce_text x = (case x of None \<Rightarrow> [] | Some t \<Rightarrow> t)"

definition coalesce :: "'a option \<Rightarrow> 'a option \<Rightarrow> 'a option" where
  \<comment> \<open>SQL \<open>COALESCE(a, b)\<close>: the first argument that is not NULL\<close>
  "coalesce a b = (case a of None \<Rightarrow> b | Some x \<Rightarrow> Some x)"

definition update_person ::
  "string option \<Rightarrow> date option \<Rightarrow> date option \<Rightarrow> string option \<Rightarrow> person_row \<Rightarrow> person_row" where
  \<comment> \<open>the \<open>SET\<close> clause of the \<open>UPDATE people\<close> statement\<close>
  "update_person photo_url birth_date death_date birth_place r =
     r\<lparr>p_photo_url := coalesce photo_url (p_photo_url r),
       p_birth_date := coalesce birth_date (p_birth_date r),
       p_death_date := coalesce death_date (p_death_date r),
       p_birth_place := coalesce birth_place (p_birth_place r)\<rparr>"

definition person_matches :: "string \<Rightarrow> string option \<Rightarrow> person_row \<Rightarrow> bool" where
  \<comment> \<open>\<open>name = %s AND COALESCE(en_name,'') = COALESCE(%s,'')\<close>\<close>
  "person_matches name en_name r =
     (p_name r = name \<and> coalesce_text (p_en_name r) = coalesce_text en_name)"

definition person_name :: "(string \<times> val) list \<Rightarrow> string option" where
  \<comment> \<open>the local name, or else the english one\<close>
  "person_name d = truncate_text (opt_or (normalize_text (dict_get d ''name''))
                                         (normalize_text (dict_get d ''enName''))) 200"

definition person_en_name :: "(string \<times> val) list \<Rightarrow> string option" where
  "person_en_name d = truncate_text (normalize_text (dict_get d ''enName'')) 200"

definition resolve_person ::
  "string \<Rightarrow> string option \<Rightarrow> string option \<Rightarrow> date option \<Rightarrow> date option \<Rightarrow> string option
   \<Rightarrow> int option action" where
  \<comment> \<open>the part of \<open>upsert_person\<close> that follows the extraction of the fields: the
      cache, the \<open>SELECT\<close>, then the \<open>UPDATE\<close> or the \<open>INSERT\<close>\<close>
  "resolve_person name en_name photo_url birth_date death_date birth_place s =
     (case person_cache s (name, en_name) of
        Some pid \<Rightarrow> (Inr (Some pid), s)
      | None \<Rightarrow>
         andthen (query (\<lambda>t. filter (person_matches name en_name) (people t)))
           (\<lambda>found.
              case found of
                row # _ \<Rightarrow>
                  andthen (statement (\<lambda>t q.
                             (Inr ((), t\<lparr>people :=
                                map (\<lambda>r. if p_id r = p_id row
                                          then update_person photo_url birth_date
                                                 death_date birth_place r
                                          else r) (people t)\<rparr>), q)))
                    (\<lambda>_. andthen (add_stats (\<lambda>st. st\<lparr>people_updated :=
                                      people_updated st + 1\<rparr>))
                      (\<lambda>_. andthen (modify (\<lambda>s. s\<lparr>person_cache :=
                                        (person_cache s)((name, en_name) \<mapsto> p_id row)\<rparr>))
                        (\<lambda>_. ret (Some (p_id row)))))
              | [] \<Rightarrow>
                  andthen (statement (\<lambda>t q.
                             let i = next_person q
                             in (Inr (i, t\<lparr>people := people t @
                                   [\<lparr>p_id = i, p_name = name, p_en_name = en_name,
                                     p_birth_date = birth_date,
                                     p_death_date = death_date,
                                     p_birth_place = birth_place,
                                     p_photo_url = photo_url\<rparr>]\<rparr>),
                                 q\<lparr>next_person := i + 1\<rparr>)))
                    (\<lambda>pid. andthen (add_stats (\<lambda>st. st\<lparr>people_inserted :=
                                        people_inserted st + 1\<rparr>))
                      (\<lambda>_. andthen (modify (\<lambda>s. s\<lparr>person_cache :=
                                        (person_cache s)((name, en_name) \<mapsto> pid)\<rparr>))
                        (\<lambda>_. ret (Some pid))))) s)"

definition upsert_person :: "val \<Rightarrow> int option action" where
  "upsert_person person =
     (case person of
        VDict d \<Rightarrow>
          (case person_name d of
             None \<Rightarrow> ret None
           | Some name \<Rightarrow>
              resolve_person name (person_en_name d)
                (normalize_text (dict_get d ''photo''))
                (map_option date_of (parse_mongo_date (dict_get d ''birthday'')))
                (map_option date_of (parse_mongo_date (dict_get d ''death'')))
                (birth_place_of (dict_get d ''birthPlace'')))
      | _ \<Rightarrow> raise AttributeError)"

definition distributor_matches :: "string \<Rightarrow> string option \<Rightarrow> distributor_row \<Rightarrow> bool" where
  "distributor_matches name release_name r =
     (fst (snd r) = name \<and> coalesce_text (snd (snd r)) = coalesce_text release_name)"

definition upsert_distributor :: "string option \<Rightarrow> string option \<Rightarrow> int option action" where
  "upsert_distributor name0 release_name0 =
     (case name0 of
        None \<Rightarrow> ret None
      | Some n \<Rightarrow>
         if n = [] then ret None
         else
          (let name = (if length n > 200 then take 200 n else n);
               release_name = (case release_name0 of
                                 None \<Rightarrow> None
                               | Some r \<Rightarrow> if r = [] then None else truncate_text (Some r) 200);
               cache_key = name @ '':'' @ coalesce_text release_name
           in (\<lambda>s. case cache_distributors s cache_key of
                 Some did \<Rightarrow> (Inr (Some did), s)
               | None \<Rightarrow>
                  andthen (query (\<lambda>t. filter (distributor_matches name release_name) (distributors t)))
                    (\<lambda>found.
                       case found of
                         row # _ \<Rightarrow>
                           andthen (modify (\<lambda>s. s\<lparr>cache_distributors :=
                                       (cache_distributors s)(cache_key \<mapsto> fst row)\<rparr>))
                             (\<lambda>_. ret (Some (fst row)))
                       | [] \<Rightarrow>
                           andthen (statement (\<lambda>t q.
                                      let i = next_distributor q
                                      in (Inr (i, t\<lparr>distributors := distributors t @
                                                     [(i, name, release_name)]\<rparr>),
                                          q\<lparr>next_distributor := i + 1\<rparr>)))
                             (\<lambda>did. andthen (modify (\<lambda>s. s\<lparr>cache_distributors :=
                                                 (cache_distributors s)(cache_key \<mapsto> did)\<rparr>))
                               (\<lambda>_. andthen (add_stats (\<lambda>st. st\<lparr>distributors_created :=
                                                 distributors_created st + 1\<rparr>))
                                 (\<lambda>_. ret (Some did))))) s)))"

section \<open>The movie loader\<close>

subsection \<open>Bulk inserts\<close>

definition ebind :: "pyerr + 'a \<Rightarrow> ('a \<Rightarrow> pyerr + 'b) \<Rightarrow> pyerr + 'b" where
  "ebind r f = (case r of Inl e \<Rightarrow> Inl e | Inr x \<Rightarrow> f x)"

definition try_except :: "'a action \<Rightarrow> (pyerr \<Rightarrow> 'a action) \<Rightarrow> 'a action" where
  \<comment> \<open>\<open>try: m except Exception as e: h(e)\<close>\<close>
  "try_except m h s = (case m s of (Inl e, s') \<Rightarrow> h e s' | (Inr x, s') \<Rightarrow> (Inr x, s'))"

fun ins_rows ::
  "('r \<Rightarrow> 'r \<Rightarrow> bool) \<Rightarrow> ('r \<Rightarrow> pyerr option) \<Rightarrow> 'r list \<Rightarrow> 'r list \<Rightarrow> pyerr + 'r list" where
  \<comment> \<open>the rows of one \<open>INSERT ... ON CONFLICT DO NOTHING\<close>, in order: a row that
      duplicates a stored one is skipped, any other row is checked against the foreign
      keys and stored\<close>
  "ins_rows dup fk [] tbl = Inr tbl"
| "ins_rows dup fk (r # rs) tbl =
     (if list_ex (\<lambda>x. dup x r) tbl then ins_rows dup fk rs tbl
      else (case fk r of
              Some e \<Rightarrow> Inl e
            | None \<Rightarrow> ins_rows dup fk rs (tbl @ [r])))"

fun not_null_pairs :: "(int \<times> int option) list \<Rightarrow> pyerr + link_row list" where
  \<comment> \<open>both columns of an association row are NOT NULL\<close>
  "not_null_pairs [] = Inr []"
| "not_null_pairs ((m, None) # rs) = Inl NotNullViolation"
| "not_null_pairs ((m, Some c) # rs) = ebind (not_null_pairs rs) (\<lambda>ps. Inr ((m, c) # ps))"

function pages :: "nat \<Rightarrow> 'a list \<Rightarrow> 'a list list" where
  "pages n xs = (if n = 0 \<or> xs = [] then [] else take n xs # pages n (drop n xs))"
  by pat_completeness auto
termination
  by (relation "measure (\<lambda>(n, xs). length xs)") auto

declare pages.simps [simp del]

fun for_each :: "('a \<Rightarrow> unit action) \<Rightarrow> 'a list \<Rightarrow> unit action" where
  "for_each f [] = ret ()"
| "for_each f (x # xs) = andthen (f x) (\<lambda>_. for_each f xs)"

definition execute_values :: "('r list \<Rightarrow> unit action) \<Rightarrow> 'r list \<Rightarrow> unit action" where
  \<comment> \<open>\<open>psycopg2.extras.execute_values\<close>: one statement for every page of 100 rows\<close>
  "execute_values stmt rows = for_each stmt (pages 100 rows)"

definition fk_check :: "bool \<Rightarrow> bool \<Rightarrow> pyerr option" where
  "fk_check enforced present = (if enforced \<and> \<not> present then Some ForeignKeyViolation else None)"

definition movie_ids :: "tables \<Rightarrow> int set" where
  "movie_ids t = m_id ` set (movies t)"

definition insert_movie_countries :: "(int \<times> int option) list \<Rightarrow> unit action" where
  \<comment> \<open>\<open>INSERT INTO movie_countries(movie_id, country_id) VALUES ... ON CONFLICT DO NOTHING\<close>\<close>
  "insert_movie_countries rows s =
     statement (\<lambda>t q.
       (case ebind (not_null_pairs rows)
               (\<lambda>ps. ins_rows (\<lambda>x r. x = r)
                        (\<lambda>r. fk_check (fk_enforced (sch s))
                                (fst r \<in> movie_ids t \<and> snd r \<in> fst ` set (countries t)))
                        ps (movie_countries t)) of
          Inl e \<Rightarrow> Inl e
        | Inr tbl \<Rightarrow> Inr ((), t\<lparr>movie_countries := tbl\<rparr>), q)) s"

definition insert_movie_genres :: "(int \<times> int option) list \<Rightarrow> unit action" where
  "insert_movie_genres rows s =
     statement (\<lambda>t q.
       (case ebind (not_null_pairs rows)
               (\<lambda>ps. ins_rows (\<lambda>x r. x = r)
                        (\<lambda>r. fk_check (fk_enforced (sch s))
                                (fst r \<in> movie_ids t \<and> snd r \<in> fst ` set (genres t)))
                        ps (movie_genres t)) of
          Inl e \<Rightarrow> Inl e
        | Inr tbl \<Rightarrow> Inr ((), t\<lparr>movie_genres := tbl\<rparr>), q)) s"

definition mp_fk :: "tables \<Rightarrow> mp_row \<Rightarrow> bool" where
  "mp_fk t r = (case r of (mid, pid, rid, ch, idx) \<Rightarrow>
     mid \<in> movie_ids t \<and> pid \<in> p_id ` set (people t)
     \<and> (case rid of None \<Rightarrow> True | Some i \<Rightarrow> i \<in> fst ` set (roles t)))"

definition insert_movie_people_rows :: "mp_row list \<Rightarrow> unit action" where
  \<comment> \<open>\<open>INSERT INTO movie_people(...) VALUES ... ON CONFLICT DO NOTHING\<close>\<close>
  "insert_movie_people_rows rows s =
     statement (\<lambda>t q.
       (case ins_rows (mp_dup (sch s))
                      (\<lambda>r. fk_check (fk_enforced (sch s)) (mp_fk t r))
                      rows (movie_people t) of
          Inl e \<Rightarrow> Inl e
        | Inr tbl \<Rightarrow> Inr ((), t\<lparr>movie_people := tbl\<rparr>), q)) s"

definition insert_movie_facts_rows :: "fact_row list \<Rightarrow> unit action" where
  "insert_movie_facts_rows rows s =
     statement (\<lambda>t q.
       (case ins_rows (fact_dup (sch s))
                      (\<lambda>r. fk_check (fk_enforced (sch s)) (fst r \<in> movie_ids t))
                      rows (movie_facts t) of
          Inl e \<Rightarrow> Inl e
        | Inr tbl \<Rightarrow> Inr ((), t\<lparr>movie_facts := tbl\<rparr>), q)) s"

definition insert_movie_videos_rows :: "video_row list \<Rightarrow> unit action" where
  "insert_movie_videos_rows rows s =
     statement (\<lambda>t q.
       (case ins_rows (video_dup (sch s))
                      (\<lambda>r. fk_check (fk_enforced (sch s)) (fst r \<in> movie_ids t))
                      rows (movie_videos t) of
          Inl e \<Rightarrow> Inl e
        | Inr tbl \<Rightarrow> Inr ((), t\<lparr>movie_videos := tbl\<rparr>), q)) s"

definition insert_movie_distributor_row :: "md_row \<Rightarrow> unit action" where
  "insert_movie_distributor_row row s =
     statement (\<lambda>t q.
       (case ins_rows (md_dup (sch s))
                      (\<lambda>r. fk_check (fk_enforced (sch s))
                              (fst r \<in> movie_ids t \<and> fst (snd r) \<in> fst ` set (distributors t)))
                      [row] (movie_distributors t) of
          Inl e \<Rightarrow> Inl e
        | Inr tbl \<Rightarrow> Inr ((), t\<lparr>movie_distributors := tbl\<rparr>), q)) s"

subsection \<open>The core row\<close>

definition as_dict :: "val \<Rightarrow> pyerr + (string \<times> val) list" where
  \<comment> \<open>\<open>x = v or {}\<close> followed by \<open>x.get(...)\<close>: a truthy value that is not a dict has no
      \<open>get\<close>\<close>
  "as_dict v = (case or_empty v of VDict d \<Rightarrow> Inr d | _ \<Rightarrow> Inl AttributeError)"

definition float_val :: "pyfloat option \<Rightarrow> val" where
  "float_val f = (case f of None \<Rightarrow> VNone | Some x \<Rightarrow> VFloat x)"

definition money_of :: "(string \<times> val) list \<Rightarrow> money" where
  "money_of d = (as_int (dict_get d ''value''),
                 truncate_text (normalize_text (dict_get d ''currency'')) 10)"

definition movie_title :: "(string \<times> val) list \<Rightarrow> string option" where
  \<comment> \<open>the title before truncation\<close>
  "movie_title movie =
     opt_or (normalize_text (dict_get movie ''name''))
       (opt_or (normalize_text (dict_get movie ''alternativeName''))
               (normalize_text (dict_get movie ''enName'')))"

definition movie_columns :: "(string \<times> val) list \<Rightarrow> string \<Rightarrow> pyerr + movie_row" where
  \<comment> \<open>the parameters of the \<open>INSERT INTO movies\<close> statement, for a title that is
      present; the id is filled in by the statement\<close>
  "movie_columns movie title0 =
     ebind (as_dict (dict_get movie ''rating'')) (\<lambda>rating.
     ebind (sanitize_rating (float_val (as_float (dict_get rating ''kp'')))) (\<lambda>rating_kp.
     ebind (sanitize_rating (float_val (as_float (dict_get rating ''imdb'')))) (\<lambda>rating_imdb.
     ebind (sanitize_rating (float_val (as_float (dict_get rating ''filmCritics'')))) (\<lambda>rating_fc.
     ebind (sanitize_rating (float_val (as_float (dict_get rating ''russianFilmCritics'')))) (\<lambda>rating_rfc.
     ebind (as_dict (dict_get movie ''votes'')) (\<lambda>votes.
     ebind (as_dict (dict_get movie ''budget'')) (\<lambda>budget.
     ebind (as_dict (dict_get movie ''fees'')) (\<lambda>fees.
     ebind (as_dict (dict_get fees ''world'')) (\<lambda>fees_world.
     ebind (as_dict (dict_get fees ''russia'')) (\<lambda>fees_russia.
     ebind (as_dict (dict_get fees ''usa'')) (\<lambda>fees_usa.
     ebind (as_dict (dict_get movie ''poster'')) (\<lambda>poster.
     ebind (as_dict (dict_get movie ''backdrop'')) (\<lambda>backdrop.
     ebind (as_dict (dict_get movie ''externalId'')) (\<lambda>external.
       Inr \<lparr>m_id = 0,
            m_title = (if length title0 > 500 then take 500 title0 else title0),
            m_alternative_name = truncate_text (normalize_text (dict_get movie ''alternativeName'')) 500,
            m_en_name = truncate_text (normalize_text (dict_get movie ''enName'')) 500,
            m_description = normalize_text (dict_get movie ''description''),
            m_age_rating = sanitize_age_rating (as_int (dict_get movie ''ageRating'')),
            m_movie_length = as_int (dict_get movie ''movieLength''),
            m_slogan = normalize_text (dict_get movie ''slogan''),
            m_type = truncate_text (opt_or (normalize_text (dict_get movie ''type'')) (Some ''movie'')) 50,
            m_year = sanitize_year (as_int (dict_get movie ''year'')),
            m_premiere_world = map_option date_of
               (parse_mongo_date (get_nested (VDict movie) [''premiere'', ''world''] VNone)),
            m_premiere_russia = map_option date_of
               (parse_mongo_date (get_nested (VDict movie) [''premiere'', ''russia''] VNone)),
            m_ratings = (rating_kp, rating_imdb, rating_fc, rating_rfc),
            m_votes = (as_int (dict_get votes ''kp''), as_int (dict_get votes ''imdb''),
                       as_int (dict_get votes ''filmCritics''),
                       as_int (dict_get votes ''russianFilmCritics'')),
            m_budget = money_of budget,
            m_fees = (money_of fees_world, money_of fees_russia, money_of fees_usa),
            m_poster = (normalize_text (dict_get poster ''url''),
                        normalize_text (dict_get poster ''previewUrl'')),
            m_backdrop = (normalize_text (dict_get backdrop ''url''),
                          normalize_text (dict_get backdrop ''previewUrl'')),
            m_external = (truncate_text (normalize_text (dict_get external ''imdb'')) 20,
                          as_int (dict_get external ''tmdb''),
                          truncate_text (normalize_text (dict_get external ''kpHD'')) 50)\<rparr>
     ))))))))))))))"

definition upsert_movie_row :: "movie_row \<Rightarrow> int action" where
  \<comment> \<open>\<open>INSERT INTO movies (id, ...) ... ON CONFLICT (id) DO UPDATE SET ... RETURNING id\<close>\<close>
  "upsert_movie_row row =
     statement (\<lambda>t q.
       (Inr (m_id row,
             t\<lparr>movies := (if m_id row \<in> movie_ids t
                           then map (\<lambda>r. if m_id r = m_id row then row else r) (movies t)
                           else movies t @ [row])\<rparr>), q))"

definition insert_movie_row :: "movie_row \<Rightarrow> int action" where
  \<comment> \<open>\<open>INSERT INTO movies (...) ... RETURNING id\<close> with the id taken from the sequence\<close>
  "insert_movie_row row =
     statement (\<lambda>t q.
       let i = next_movie q; q' = q\<lparr>next_movie := i + 1\<rparr>
       in if i \<in> movie_ids t then (Inl UniqueViolation, q')
          else (Inr (i, t\<lparr>movies := movies t @ [row\<lparr>m_id := i\<rparr>]\<rparr>), q'))"

definition insert_movie_core :: "(string \<times> val) list \<Rightarrow> int option action" where
  "insert_movie_core movie =
     (let explicit_id = as_int (dict_get movie ''id'')
      in case movie_title movie of
           None \<Rightarrow> ret None
         | Some title \<Rightarrow>
            andthen (pure (movie_columns movie title))
              (\<lambda>row.
                 andthen (case explicit_id of
                            Some i \<Rightarrow> upsert_movie_row (row\<lparr>m_id := i\<rparr>)
                          | None \<Rightarrow> insert_movie_row row)
                   (\<lambda>movie_id.
                      andthen (if movie_id \<noteq> 0 then
                                 (if explicit_id \<noteq> None
                                  then add_stats (\<lambda>st. st\<lparr>movies_updated := movies_updated st + 1\<rparr>)
                                  else add_stats (\<lambda>st. st\<lparr>movies_inserted := movies_inserted st + 1\<rparr>))
                               else ret ())
                        (\<lambda>_. ret (Some movie_id)))))"

subsection \<open>Countries, genres, people, facts, videos\<close>

fun collect_ids :: "(string \<Rightarrow> int option action) \<Rightarrow> int \<Rightarrow> string list \<Rightarrow> (int \<times> int option) list action" where
  \<comment> \<open>the loop that resolves each name and appends the pair\<close>
  "collect_ids resolve movie_id [] = ret []"
| "collect_ids resolve movie_id (name # names) =
     (if name = [] then collect_ids resolve movie_id names
      else andthen (resolve name)
             (\<lambda>cid. andthen (collect_ids resolve movie_id names)
                       (\<lambda>pairs. ret ((movie_id, cid) # pairs))))"

definition link_movie_countries :: "int \<Rightarrow> string list \<Rightarrow> unit action" where
  "link_movie_countries movie_id country_names =
     (if country_names = [] then ret ()
      else andthen (collect_ids get_or_create_country movie_id country_names)
             (\<lambda>pairs.
                if pairs = [] then ret ()
                else andthen (execute_values insert_movie_countries pairs)
                       (\<lambda>_. add_stats (\<lambda>st. st\<lparr>movie_countries_linked :=
                                movie_countries_linked st + length pairs\<rparr>))))"

definition link_movie_genres :: "int \<Rightarrow> string list \<Rightarrow> unit action" where
  "link_movie_genres movie_id genre_names =
     (if genre_names = [] then ret ()
      else andthen (collect_ids get_or_create_genre movie_id genre_names)
             (\<lambda>pairs.
                if pairs = [] then ret ()
                else andthen (execute_values insert_movie_genres pairs)
                       (\<lambda>_. add_stats (\<lambda>st. st\<lparr>movie_genres_linked :=
                                movie_genres_linked st + length pairs\<rparr>))))"

definition role_map :: "string \<rightharpoonup> string" where
  "role_map = map_of
     [(''actor'', ''actor''),
      (''director'', ''director''),
      (''producer'', ''producer''),
      (''writer'', ''writer''),
      (''composer'', ''composer''),
      (''operator'', ''cinematographer''),
      (''cinematographer'', ''cinematographer''),
      (''editor'', ''editor''),
      (''production designer'', ''production_designer''),
      (''designer'', ''production_designer'')]"

type_synonym dedup_key = "int \<times> int option \<times> string option"

definition person_link :: "val \<Rightarrow> int \<Rightarrow> (int option \<times> string option) action" where
  \<comment> \<open>role id and character name of one person reference\<close>
  "person_link p person_id =
     andthen (pure (py_get p ''enProfession''))
       (\<lambda>prof.
          let role_key = py_lower (coalesce_text (normalize_text prof))
          in andthen (case role_map role_key of
                        None \<Rightarrow> ret None
                      | Some role_name \<Rightarrow>
                         if role_name = [] then ret None else get_role_id role_name)
               (\<lambda>role_id.
                  andthen (pure (py_get p ''description''))
                    (\<lambda>descr. ret (role_id, truncate_text (normalize_text descr) 200))))"

fun people_rows ::
  "int \<Rightarrow> val list \<Rightarrow> int \<Rightarrow> dedup_key list \<Rightarrow> mp_row list \<Rightarrow> mp_row list action" where
  \<comment> \<open>the loop of \<open>insert_movie_people\<close> over the person references, with its three
      variables \<open>order_index\<close>, \<open>seen_keys\<close> and \<open>rows\<close>\<close>
  "people_rows movie_id [] order_index seen_keys rows = ret rows"
| "people_rows movie_id (p # ps) order_index0 seen_keys rows =
     (let order_index = order_index0 + 1
      in andthen (upsert_person p)
           (\<lambda>person_id.
              case person_id of
                None \<Rightarrow> people_rows movie_id ps order_index seen_keys rows
              | Some pid \<Rightarrow>
                 if pid = 0 then people_rows movie_id ps order_index seen_keys rows
                 else andthen (person_link p pid)
                        (\<lambda>(role_id, character_name).
                           let dedup_key = (pid, role_id, character_name)
                           in if dedup_key \<in> set seen_keys
                              then people_rows movie_id ps order_index seen_keys rows
                              else people_rows movie_id ps order_index (dedup_key # seen_keys)
                                     (rows @ [(movie_id, pid, role_id, character_name, order_index)]))))"

fun retry_rows :: "mp_row list \<Rightarrow> nat \<Rightarrow> nat action" where
  \<comment> \<open>the per-row fallback: every row in its own statement, an error is logged and the
      loop goes on; the result is the number of statements that succeeded\<close>
  "retry_rows [] linked = ret linked"
| "retry_rows (r # rs) linked =
     andthen (try_except (andthen (insert_movie_people_rows [r]) (\<lambda>_. ret (linked + 1)))
                         (\<lambda>row_err. ret linked))
       (\<lambda>linked'. retry_rows rs linked')"

definition insert_movie_people :: "int \<Rightarrow> val list \<Rightarrow> unit action" where
  "insert_movie_people movie_id persons =
     (if persons = [] then ret ()
      else andthen (people_rows movie_id persons 0 [] [])
             (\<lambda>rows.
                if rows = [] then ret ()
                else try_except
                       (andthen (execute_values insert_movie_people_rows rows)
                          (\<lambda>_. add_stats (\<lambda>st. st\<lparr>movie_people_linked :=
                                   movie_people_linked st + length rows\<rparr>)))
                       (\<lambda>batch_err.
                          andthen (retry_rows rows 0)
                            (\<lambda>linked. add_stats (\<lambda>st. st\<lparr>movie_people_linked :=
                                         movie_people_linked st + linked\<rparr>)))))"

definition py_iter :: "val \<Rightarrow> pyerr + val list" where
  \<comment> \<open>the elements a \<open>for\<close> loop over the value visits\<close>
  "py_iter v = (case v of
       VList xs \<Rightarrow> Inr xs
     | VStr s \<Rightarrow> Inr (map (\<lambda>c. VStr [c]) s)
     | VDict kvs \<Rightarrow> Inr (map (\<lambda>kv. VStr (fst kv)) kvs)
     | _ \<Rightarrow> Inl TypeError)"

fun fact_rows :: "int \<Rightarrow> val list \<Rightarrow> pyerr + fact_row list" where
  "fact_rows movie_id [] = Inr []"
| "fact_rows movie_id (f # fs) =
     ebind (py_get f ''value'') (\<lambda>v.
     ebind (py_get f ''type'') (\<lambda>ty.
     ebind (py_get f ''spoiler'') (\<lambda>sp.
     ebind (fact_rows movie_id fs) (\<lambda>rows.
       Inr (case normalize_text v of
              None \<Rightarrow> rows
            | Some text \<Rightarrow>
               (movie_id, text, py_upper (case normalize_text ty of None \<Rightarrow> ''FACT'' | Some t \<Rightarrow> t),
                truthy sp) # rows)))))"

definition insert_movie_facts :: "int \<Rightarrow> val \<Rightarrow> unit action" where
  "insert_movie_facts movie_id facts =
     (if \<not> truthy facts then ret ()
      else andthen (pure (ebind (py_iter facts) (fact_rows movie_id)))
             (\<lambda>rows.
                if rows = [] then ret ()
                else andthen (execute_values insert_movie_facts_rows rows)
                       (\<lambda>_. add_stats (\<lambda>st. st\<lparr>movie_facts_inserted :=
                                movie_facts_inserted st + length rows\<rparr>))))"

fun video_rows :: "int \<Rightarrow> val list \<Rightarrow> video_row list" where
  "video_rows movie_id [] = []"
| "video_rows movie_id (v # vs) =
     (case v of
        VDict d \<Rightarrow>
          (case normalize_text (dict_get d ''url'') of
             None \<Rightarrow> video_rows movie_id vs
           | Some url \<Rightarrow>
              (movie_id, url, normalize_text (dict_get d ''name''),
               normalize_text (dict_get d ''site''),
               map_option py_lower (normalize_text (dict_get d ''type''))) # video_rows movie_id vs)
      | _ \<Rightarrow> video_rows movie_id vs)"

definition insert_movie_videos :: "int \<Rightarrow> (string \<times> val) list \<Rightarrow> unit action" where
  "insert_movie_videos movie_id movie =
     (case get_nested (VDict movie) [''videos'', ''trailers''] VNone of
        VList videos \<Rightarrow>
          if videos = [] then ret ()
          else (let rows = video_rows movie_id videos
                in if rows = [] then ret ()
                   else andthen (execute_values insert_movie_videos_rows rows)
                          (\<lambda>_. add_stats (\<lambda>st. st\<lparr>movie_videos_inserted :=
                                   movie_videos_inserted st + length rows\<rparr>)))
      | _ \<Rightarrow> ret ())"

subsection \<open>One batch of movie documents\<close>

type_synonym doc = "(string \<times> val) list"

definition or_list :: "val \<Rightarrow> val" where
  \<comment> \<open>\<open>x or []\<close>\<close>
  "or_list v = (if truthy v then v else VList [])"

definition names_of :: "val \<Rightarrow> pyerr + string list" where
  \<comment> \<open>the normalized, non-empty \<open>name\<close> of every dict among the elements\<close>
  "names_of v =
     ebind (py_iter (or_list v))
       (\<lambda>xs. Inr (List.map_filter
                     (\<lambda>c. case c of VDict d \<Rightarrow> normalize_text (dict_get d ''name'') | _ \<Rightarrow> None) xs))"

definition release_date_of :: "doc \<Rightarrow> date option" where
  \<comment> \<open>\<open>parse_mongo_date(russia) or parse_mongo_date(world)\<close>, then \<open>.date()\<close>\<close>
  "release_date_of movie_doc =
     map_option date_of
       (opt_or (parse_mongo_date (get_nested (VDict movie_doc) [''premiere'', ''russia''] VNone))
               (parse_mongo_date (get_nested (VDict movie_doc) [''premiere'', ''world''] VNone)))"

definition link_distributor :: "int \<Rightarrow> doc \<Rightarrow> unit action" where
  "link_distributor movie_id movie_doc =
     andthen (pure (as_dict (dict_get movie_doc ''distributors'')))
       (\<lambda>distributors.
          andthen (upsert_distributor (normalize_text (dict_get distributors ''distributor''))
                                      (normalize_text (dict_get distributors ''distributorRelease'')))
            (\<lambda>distributor_id.
               case distributor_id of
                 None \<Rightarrow> ret ()
               | Some did \<Rightarrow>
                  if did = 0 then ret ()
                  else insert_movie_distributor_row
                         (movie_id, did, ''theatrical'', release_date_of movie_doc)))"

definition movie_children :: "int \<Rightarrow> doc \<Rightarrow> unit action" where
  \<comment> \<open>what \<open>process_movie_batch\<close> writes for a movie after its core row\<close>
  "movie_children movie_id movie_doc =
     andthen (pure (names_of (dict_get movie_doc ''countries'')))
       (\<lambda>countries. andthen (link_movie_countries movie_id countries)
     (\<lambda>_. andthen (pure (names_of (dict_get movie_doc ''genres'')))
       (\<lambda>genres. andthen (link_movie_genres movie_id genres)
     (\<lambda>_. andthen (case or_list (dict_get movie_doc ''persons'') of
                      VList persons \<Rightarrow> insert_movie_people movie_id persons
                    | _ \<Rightarrow> ret ())
     (\<lambda>_. andthen (insert_movie_facts movie_id (or_list (dict_get movie_doc ''facts'')))
     (\<lambda>_. andthen (insert_movie_videos movie_id movie_doc)
     (\<lambda>_. link_distributor movie_id movie_doc)))))))"

definition recover :: "nat \<Rightarrow> pg \<Rightarrow> pg" where
  \<comment> \<open>the \<open>except\<close> branch: \<open>ROLLBACK TO SAVEPOINT\<close>, then \<open>RELEASE SAVEPOINT\<close>, an error
      of either being passed over\<close>
  "recover sp s = (case rollback_to_savepoint sp s of
       (Inl e, s') \<Rightarrow> s'
     | (Inr u, s') \<Rightarrow> snd (release_savepoint sp s'))"

definition movie_step :: "doc \<Rightarrow> nat \<times> nat \<Rightarrow> pg \<Rightarrow> (nat \<times> nat) \<times> pg" where
  \<comment> \<open>one turn of the loop of \<open>process_movie_batch\<close>; the pair holds the local counters
      \<open>inserted\<close> and \<open>skipped\<close>. The mirroring to the search index and to the cache catches
      its own exceptions and touches neither the store nor these counters; it is left out.\<close>
  "movie_step movie_doc c s0 =
     (case c of (inserted, skipped) \<Rightarrow>
      (case time_ns s0 of (sp, s) \<Rightarrow>
        (case andthen (savepoint sp) (\<lambda>_. insert_movie_core movie_doc) s of
           (Inl e, s1) \<Rightarrow> ((inserted, skipped + 1), recover sp s1)
         | (Inr movie_id, s1) \<Rightarrow>
            (case truthy_id movie_id of
               None \<Rightarrow>
                 (case release_savepoint sp s1 of
                    (Inl e, s2) \<Rightarrow> ((inserted, skipped + 1 + 1), recover sp s2)
                  | (Inr u, s2) \<Rightarrow> ((inserted, skipped + 1), s2))
             | Some mid \<Rightarrow>
                 (case movie_children mid movie_doc s1 of
                    (Inl e, s2) \<Rightarrow> ((inserted, skipped + 1), recover sp s2)
                  | (Inr u, s2) \<Rightarrow>
                     (case release_savepoint sp s2 of
                        (Inl e, s3) \<Rightarrow> ((inserted + 1, skipped + 1), recover sp s3)
                      | (Inr u, s3) \<Rightarrow> ((inserted + 1, skipped), s3)))))))"

fun movie_loop :: "doc list \<Rightarrow> nat \<times> nat \<Rightarrow> pg \<Rightarrow> (nat \<times> nat) \<times> pg" where
  "movie_loop [] c s = (c, s)"
| "movie_loop (d # ds) c s = (case movie_step d c s of (c', s') \<Rightarrow> movie_loop ds c' s')"

definition process_movie_batch :: "doc list \<Rightarrow> pg \<Rightarrow> nat \<times> pg" where
  \<comment> \<open>returns \<open>inserted\<close>\<close>
  "process_movie_batch movies_batch s =
     (case movie_loop movies_batch (0, 0) s of ((inserted, skipped), s') \<Rightarrow> (inserted, s'))"

subsection \<open>One batch of person documents\<close>

definition person_step :: "doc \<Rightarrow> nat \<times> nat \<Rightarrow> pg \<Rightarrow> (nat \<times> nat) \<times> pg" where
  "person_step person_doc c s0 =
     (case c of (inserted, skipped) \<Rightarrow>
      (case time_ns s0 of (sp, s) \<Rightarrow>
        (case andthen (savepoint sp) (\<lambda>_. upsert_person (VDict person_doc)) s of
           (Inl e, s1) \<Rightarrow> ((inserted, skipped + 1), recover sp s1)
         | (Inr pid, s1) \<Rightarrow>
            (let inserted' = (if id_truthy pid then inserted + 1 else inserted)
             in case release_savepoint sp s1 of
                  (Inl e, s2) \<Rightarrow> ((inserted', skipped + 1), recover sp s2)
                | (Inr u, s2) \<Rightarrow> ((inserted', skipped), s2)))))"

fun people_loop :: "doc list \<Rightarrow> nat \<times> nat \<Rightarrow> pg \<Rightarrow> (nat \<times> nat) \<times> pg" where
  "people_loop [] c s = (c, s)"
| "people_loop (d # ds) c s = (case person_step d c s of (c', s') \<Rightarrow> people_loop ds c' s')"

definition process_people_batch :: "doc list \<Rightarrow> pg \<Rightarrow> nat \<times> pg" where
  "process_people_batch people_batch s =
     (case people_loop people_batch (0, 0) s of ((inserted, skipped), s') \<Rightarrow> (inserted, s'))"

section \<open>The season loader\<close>

definition int_or :: "int option \<Rightarrow> int \<Rightarrow> int" where
  \<comment> \<open>\<open>x or d\<close> for an optional integer: None and 0 are both falsy\<close>
  "int_or x d = (case x of None \<Rightarrow> d | Some n \<Rightarrow> if n = 0 then d else n)"

definition season_number :: "doc \<Rightarrow> int" where
  \<comment> \<open>\<open>as_int(season_doc.get("number")) or 1\<close>\<close>
  "season_number season_doc = int_or (as_int (dict_get season_doc ''number'')) 1"

definition episode_number :: "doc \<Rightarrow> int" where
  \<comment> \<open>\<open>as_int(ep.get("number")) or 0\<close>\<close>
  "episode_number ep = int_or (as_int (dict_get ep ''number'')) 0"

definition upsert_season_row :: "season_row \<Rightarrow> int action" where
  \<comment> \<open>\<open>INSERT INTO seasons(...) ... ON CONFLICT (movie_id, season_number) DO UPDATE SET
      ... RETURNING id\<close>; the id of a new row comes from the sequence\<close>
  "upsert_season_row row s =
     statement (\<lambda>t q.
       let i = next_season q; q' = q\<lparr>next_season := i + 1\<rparr>
       in (case filter (\<lambda>r. s_movie_id r = s_movie_id row \<and> s_number r = s_number row) (seasons t) of
             old # _ \<Rightarrow>
               (Inr (s_id old,
                     t\<lparr>seasons := map (\<lambda>r. if s_movie_id r = s_movie_id row \<and> s_number r = s_number row
                                             then r\<lparr>s_episodes_count := s_episodes_count row,
                                                    s_air_date := s_air_date row,
                                                    s_poster_url := s_poster_url row,
                                                    s_description := s_description row\<rparr>
                                             else r) (seasons t)\<rparr>), q')
           | [] \<Rightarrow>
               if fk_enforced (sch s) \<and> s_movie_id row \<notin> movie_ids t
               then (Inl ForeignKeyViolation, q')
               else (Inr (i, t\<lparr>seasons := seasons t @ [row\<lparr>s_id := i\<rparr>]\<rparr>), q'))) s"

definition episode_key :: "episode_row \<Rightarrow> int \<times> int" where
  "episode_key r = (fst r, fst (snd r))"

fun upsert_episode_rows :: "episode_row list \<Rightarrow> (int \<times> int) list \<Rightarrow> episode_row list \<Rightarrow> pyerr + episode_row list" where
  \<comment> \<open>the rows of one \<open>INSERT INTO episodes ... ON CONFLICT (season_id, episode_number) DO
      UPDATE\<close>: a statement may not touch the same row twice\<close>
  "upsert_episode_rows [] touched tbl = Inr tbl"
| "upsert_episode_rows (r # rs) touched tbl =
     (if episode_key r \<in> set touched then Inl CardinalityViolation
      else upsert_episode_rows rs (episode_key r # touched)
             (if episode_key r \<in> episode_key ` set tbl
              then map (\<lambda>x. if episode_key x = episode_key r then r else x) tbl
              else tbl @ [r]))"

definition insert_episodes :: "episode_row list \<Rightarrow> unit action" where
  "insert_episodes rows s =
     statement (\<lambda>t q.
       (if fk_enforced (sch s) \<and> \<not> list_all (\<lambda>r. fst r \<in> s_id ` set (seasons t)) rows
        then Inl ForeignKeyViolation
        else (case upsert_episode_rows rows [] (episodes t) of
                Inl e \<Rightarrow> Inl e
              | Inr tbl \<Rightarrow> Inr ((), t\<lparr>episodes := tbl\<rparr>)), q)) s"

fun episode_rows :: "int \<Rightarrow> val list \<Rightarrow> pyerr + episode_row list" where
  "episode_rows season_id [] = Inr []"
| "episode_rows season_id (ep # eps) =
     (case ep of
        VDict d \<Rightarrow>
          ebind (as_dict (dict_get d ''still'')) (\<lambda>still.
          ebind (episode_rows season_id eps) (\<lambda>rows.
            Inr ((season_id, episode_number d,
                  normalize_text (dict_get d ''name''),
                  normalize_text (dict_get d ''enName''),
                  normalize_text (dict_get d ''description''),
                  map_option date_of (parse_mongo_date (dict_get d ''airDate'')),
                  as_int (dict_get d ''duration''),
                  normalize_text (dict_get still ''url''),
                  normalize_text (dict_get still ''previewUrl'')) # rows)))
      | _ \<Rightarrow> Inl AttributeError)"

definition upsert_season :: "doc \<Rightarrow> int option action" where
  "upsert_season season_doc =
     (case as_int (dict_get season_doc ''movieId'') of
        None \<Rightarrow> ret None
      | Some movie_id \<Rightarrow>
         if movie_id = 0 then ret None
         else andthen (query (\<lambda>t. movie_id \<in> movie_ids t))
                (\<lambda>exists.
                   if \<not> exists then ret None
                   else
                     (let number = season_number season_doc;
                          episodes_count = as_int (dict_get season_doc ''episodesCount'');
                          air_date = map_option date_of (parse_mongo_date (dict_get season_doc ''airDate''))
                      in andthen (pure (as_dict (dict_get season_doc ''poster'')))
                           (\<lambda>poster.
                              andthen (upsert_season_row
                                         \<lparr>s_id = 0, s_movie_id = movie_id, s_number = number,
                                          s_episodes_count = episodes_count, s_air_date = air_date,
                                          s_poster_url = normalize_text (dict_get poster ''url''),
                                          s_description = normalize_text (dict_get season_doc ''description'')\<rparr>)
                                (\<lambda>season_id.
                                   andthen (add_stats (\<lambda>st. st\<lparr>seasons_inserted := seasons_inserted st + 1\<rparr>))
                                     (\<lambda>_. andthen (pure (ebind (py_iter (or_list (dict_get season_doc ''episodes'')))
                                                           (episode_rows season_id)))
                                       (\<lambda>rows.
                                          andthen (if rows = [] then ret ()
                                                   else execute_values insert_episodes rows)
                                            (\<lambda>_. ret (Some season_id)))))))))"

section \<open>A repository at the start of a run\<close>

definition no_tables :: tables where
  "no_tables = \<lparr>countries = [], genres = [], roles = [], people = [], distributors = [],
                 movies = [], movie_countries = [], movie_genres = [], movie_people = [],
                 movie_facts = [], movie_videos = [], movie_distributors = [],
                 seasons = [], episodes = []\<rparr>"

definition first_ids :: sequences where
  "first_ids = \<lparr>next_country = 1, next_genre = 1, next_person = 1, next_distributor = 1,
                 next_movie = 1, next_season = 1\<rparr>"

definition key_schema :: "bool \<Rightarrow> schema" where
  \<comment> \<open>a schema whose association and child tables are unique on their natural keys:
      (movie, person, role), (movie, fact text), (movie, video url), (movie, distributor)\<close>
  "key_schema fk =
     \<lparr>fk_enforced = fk,
      mp_dup = (\<lambda>a b. (fst a, fst (snd a), fst (snd (snd a))) = (fst b, fst (snd b), fst (snd (snd b)))),
      fact_dup = (\<lambda>a b. (fst a, fst (snd a)) = (fst b, fst (snd b))),
      video_dup = (\<lambda>a b. (fst a, fst (snd a)) = (fst b, fst (snd b))),
      md_dup = (\<lambda>a b. (fst a, fst (snd a)) = (fst b, fst (snd b)))\<rparr>"

definition new_repo :: "schema \<Rightarrow> tables \<Rightarrow> sequences \<Rightarrow> pg" where
  \<comment> \<open>\<open>PgRepo()\<close> followed by \<open>connect()\<close>: empty caches except for the roles, which are
      preloaded from the table, and counters at zero\<close>
  "new_repo sc t q =
     \<lparr>sch = sc, tabs = t, seqs = q, aborted = False, savepoints = [],
      cache_countries = Map.empty, cache_genres = Map.empty,
      cache_roles = map_of (rev (map (\<lambda>r. (snd r, fst r)) (roles t))),
      cache_distributors = Map.empty, person_cache = Map.empty,
      stats = \<lparr>people_inserted = 0, people_updated = 0, movies_inserted = 0,
                movies_updated = 0, seasons_inserted = 0, seasons_updated = 0,
                countries_created = 0, genres_created = 0, distributors_created = 0,
                movie_countries_linked = 0, movie_genres_linked = 0, movie_people_linked = 0,
                movie_facts_inserted = 0, movie_videos_inserted = 0\<rparr>,
      clock = 0\<rparr>"

definition remove_key :: "string \<Rightarrow> doc \<Rightarrow> doc" where
  \<comment> \<open>the document without the given field\<close>
  "remove_key k d = filter (\<lambda>kv. fst kv \<noteq> k) d"

definition blank_movie :: "int \<Rightarrow> string \<Rightarrow> movie_row" where
  \<comment> \<open>a movie row with an id, a title and the type \<open>movie\<close>, every other column NULL\<close>
  "blank_movie i title =
     \<lparr>m_id = i, m_title = title, m_alternative_name = None, m_en_name = None,
      m_description = None, m_age_rating = None, m_movie_length = None, m_slogan = None,
      m_type = Some ''movie'', m_year = None, m_premiere_world = None, m_premiere_russia = None,
      m_ratings = (None, None, None, None), m_votes = (None, None, None, None),
      m_budget = (None, None), m_fees = ((None, None), (None, None), (None, None)),
      m_poster = (None, None), m_backdrop = (None, None), m_external = (None, None, None)\<rparr>"

text \<open>Two movie documents: one with a name of 501 characters, one without any title.\<close>

definition long_doc :: doc where
  "long_doc = [(''name'', VStr (replicate 501 CHR ''a''))]"

definition untitled_doc :: doc where
  "untitled_doc = [(''name'', VStr ''  ''), (''enName'', VNone), (''year'', VInt 1999)]"

definition empty_repo :: pg where
  "empty_repo = new_repo (key_schema True) no_tables first_ids"

text \<open>A store that holds the movie 7, and a season document for it.\<close>

definition movie7_repo :: pg where
  "movie7_repo = new_repo (key_schema True) (no_tables\<lparr>movies := [blank_movie 7 ''Seven'']\<rparr>)
                   first_ids"

definition season_doc :: doc where
  "season_doc = [(''movieId'', VInt 7), (''number'', VStr ''0''),
                 (''episodes'', VList [VDict [(''number'', VStr ''0''), (''name'', VStr ''Pilot'')]])]"

text \<open>A movie document whose premiere in Russia is later than its world premiere.\<close>

definition dist_doc :: doc where
  "dist_doc = [(''id'', VInt 7), (''name'', VStr ''Seven''),
               (''distributors'', VDict [(''distributor'', VStr ''Acme'')]),
               (''premiere'', VDict [(''russia'', VStr ''2020-05-01''),
                                     (''world'', VStr ''2020-01-01'')])]"

text \<open>A store that already holds one person, and a document for the same person.\<close>

definition ann_row :: person_row where
  "ann_row = \<lparr>p_id = 1, p_name = ''Ann'', p_en_name = None, p_birth_date = None,
              p_death_date = None, p_birth_place = Some ''Paris'', p_photo_url = Some ''a.jpg''\<rparr>"

definition ann_repo :: pg where
  "ann_repo = new_repo (key_schema True) (no_tables\<lparr>people := [ann_row]\<rparr>)
                (first_ids\<lparr>next_person := 2\<rparr>)"

definition ann_doc :: doc where
  "ann_doc = [(''name'', VStr ''Ann''), (''photo'', VStr ''b.jpg'')]"

section \<open>Properties\<close>





lemma py_int_epoch: "py_int (VStr ''1336003200000'') = Inr 1336003200000"
  by (simp add: py_int_def py_int_of_str_def py_strip_def is_space_def take_sign_def
      take_digits_def is_digit_def digit_val_def digits_value_def)

lemma fromtimestamp_epoch:
  "fromtimestamp_millis 1336003200000 =
     Some \<lparr>dt_year = 2012, dt_month = 5, dt_day = 3, dt_hour = 0, dt_minute = 0,
           dt_second = 0, dt_microsecond = 0, tzinfo = Some 0\<rparr>"
  by code_simp

lemma parse_iso_with_Z:
  "parse_mongo_date (VStr ''2012-05-03T00:00:00Z'') =
     Some \<lparr>dt_year = 2012, dt_month = 5, dt_day = 3, dt_hour = 0, dt_minute = 0,
           dt_second = 0, dt_microsecond = 0, tzinfo = Some 0\<rparr>"
  by code_simp

lemma parse_iso_without_Z:
  "parse_mongo_date (VStr ''2012-05-03T00:00:00'') =
     Some \<lparr>dt_year = 2012, dt_month = 5, dt_day = 3, dt_hour = 0, dt_minute = 0,
           dt_second = 0, dt_microsecond = 0, tzinfo = None\<rparr>"
  by code_simp

text \<open>
  Claim C3. The date normalizer should give, for every supported encoding of one instant,
  equal results that carry an explicit UTC offset. The theorem evaluates the code on four
  encodings of 2012-05-03T00:00:00 UTC: the ISO string with a \<open>Z\<close>, the epoch-millisecond
  wrapper and the native datetime without tzinfo all give the UTC-aware value, but the ISO
  string without the \<open>Z\<close> gives a datetime without any offset, which Python does not
  consider equal to the aware one.
\<close>

theorem parse_mongo_date_iso_without_offset_is_naive:
  "parse_mongo_date (VStr ''2012-05-03T00:00:00Z'') =
     Some \<lparr>dt_year = 2012, dt_month = 5, dt_day = 3, dt_hour = 0, dt_minute = 0,
           dt_second = 0, dt_microsecond = 0, tzinfo = Some 0\<rparr>
   \<and> parse_mongo_date (VDict [(''$date'', VDict [(''$numberLong'', VStr ''1336003200000'')])]) =
     Some \<lparr>dt_year = 2012, dt_month = 5, dt_day = 3, dt_hour = 0, dt_minute = 0,
           dt_second = 0, dt_microsecond = 0, tzinfo = Some 0\<rparr>
   \<and> parse_mongo_date (VDatetime \<lparr>dt_year = 2012, dt_month = 5, dt_day = 3, dt_hour = 0,
           dt_minute = 0, dt_second = 0, dt_microsecond = 0, tzinfo = None\<rparr>) =
     Some \<lparr>dt_year = 2012, dt_month = 5, dt_day = 3, dt_hour = 0, dt_minute = 0,
           dt_second = 0, dt_microsecond = 0, tzinfo = Some 0\<rparr>
   \<and> parse_mongo_date (VStr ''2012-05-03T00:00:00'') =
     Some \<lparr>dt_year = 2012, dt_month = 5, dt_day = 3, dt_hour = 0, dt_minute = 0,
           dt_second = 0, dt_microsecond = 0, tzinfo = None\<rparr>
   \<and> datetime_eq
         \<lparr>dt_year = 2012, dt_month = 5, dt_day = 3, dt_hour = 0, dt_minute = 0,
          dt_second = 0, dt_microsecond = 0, tzinfo = None\<rparr>
         \<lparr>dt_year = 2012, dt_month = 5, dt_day = 3, dt_hour = 0, dt_minute = 0,
          dt_second = 0, dt_microsecond = 0, tzinfo = Some 0\<rparr> = False"
proof (intro conjI)
  show "parse_mongo_date (VDict [(''$date'', VDict [(''$numberLong'', VStr ''1336003200000'')])]) =
     Some \<lparr>dt_year = 2012, dt_month = 5, dt_day = 3, dt_hour = 0, dt_minute = 0,
           dt_second = 0, dt_microsecond = 0, tzinfo = Some 0\<rparr>"
    by (simp add: parse_mongo_date_def py_int_epoch fromtimestamp_epoch)
qed (simp_all add: parse_iso_with_Z parse_iso_without_Z datetime_eq_def,
     simp add: parse_mongo_date_def)

subsection \<open>The resolvers, step by step\<close>

lemmas monad_defs = andthen_def ret_def raise_def pure_def modify_def add_stats_def
  statement_def query_def get_single_value_def try_except_def

lemma name_key_eq:
  "name_key name0 = (if 100 < length (py_strip name0) then take 100 (py_strip name0) else py_strip name0)"
  by (simp add: name_key_def truncate_text_def)

lemma get_or_create_country_apply:
  "get_or_create_country name0 s =
     (if name_key name0 = [] then (Inr None, s)
      else case cache_countries s (name_key name0) of
             Some cid \<Rightarrow> (Inr (Some cid), s)
           | None \<Rightarrow>
              if aborted s then (Inl InFailedSqlTransaction, s)
              else let found = (case map fst (filter (\<lambda>r. snd r = name_key name0) (countries (tabs s))) of
                      [] \<Rightarrow> None | x # _ \<Rightarrow> Some x) in
                     if id_truthy found
                     then (Inr found, s\<lparr>cache_countries := (cache_countries s)(name_key name0 := found)\<rparr>)
                     else if name_key name0 \<in> snd ` set (countries (tabs s))
                     then (Inl UniqueViolation,
                           s\<lparr>seqs := (seqs s)\<lparr>next_country := next_country (seqs s) + 1\<rparr>,
                             aborted := True\<rparr>)
                     else (Inr (Some (next_country (seqs s))),
                           s\<lparr>tabs := (tabs s)\<lparr>countries := countries (tabs s) @
                                     [(next_country (seqs s), name_key name0)]\<rparr>,
                             seqs := (seqs s)\<lparr>next_country := next_country (seqs s) + 1\<rparr>,
                             cache_countries := (cache_countries s)(name_key name0 \<mapsto> next_country (seqs s)),
                             stats := (stats s)\<lparr>countries_created := countries_created (stats s) + 1\<rparr>\<rparr>))"
  by (simp add: get_or_create_country_def truncate_text_def monad_defs insert_named_def
        Let_def name_key_def split: option.split)

lemma resolve_person_apply:
  "resolve_person name en photo b d bp s =
     (case person_cache s (name, en) of
        Some pid \<Rightarrow> (Inr (Some pid), s)
      | None \<Rightarrow>
         if aborted s then (Inl InFailedSqlTransaction, s)
         else (case filter (person_matches name en) (people (tabs s)) of
                 row # _ \<Rightarrow>
                   (Inr (Some (p_id row)),
                    s\<lparr>tabs := (tabs s)\<lparr>people :=
                           map (\<lambda>r. if p_id r = p_id row then update_person photo b d bp r else r)
                               (people (tabs s))\<rparr>,
                      stats := (stats s)\<lparr>people_updated := people_updated (stats s) + 1\<rparr>,
                      person_cache := (person_cache s)((name, en) \<mapsto> p_id row)\<rparr>)
               | [] \<Rightarrow>
                   (Inr (Some (next_person (seqs s))),
                    s\<lparr>tabs := (tabs s)\<lparr>people := people (tabs s) @
                           [\<lparr>p_id = next_person (seqs s), p_name = name, p_en_name = en,
                             p_birth_date = b, p_death_date = d, p_birth_place = bp,
                             p_photo_url = photo\<rparr>]\<rparr>,
                      seqs := (seqs s)\<lparr>next_person := next_person (seqs s) + 1\<rparr>,
                      stats := (stats s)\<lparr>people_inserted := people_inserted (stats s) + 1\<rparr>,
                      person_cache := (person_cache s)((name, en) \<mapsto> next_person (seqs s))\<rparr>)))"
  by (simp add: resolve_person_def monad_defs Let_def split: option.split list.split)

lemma resolve_person_second_call:
  assumes "resolve_person name en photo b d bp s = (Inr r, s1)"
  shows "resolve_person name en photo' b' d' bp' s1 = (Inr r, s1)"
proof (cases "person_cache s (name, en)")
  case (Some pid)
  with assms have "r = Some pid" "s1 = s"
    by (simp_all add: resolve_person_apply)
  with Some show ?thesis by (simp add: resolve_person_apply)
next
  case None
  with assms obtain pid where "r = Some pid" "person_cache s1 (name, en) = Some pid"
    by (auto simp: resolve_person_apply split: if_splits list.splits)
  then show ?thesis by (simp add: resolve_person_apply)
qed

lemma resolve_person_one_insert:
  assumes "resolve_person name en photo b d bp s = (r, s1)"
  shows "length (people (tabs s1)) \<le> Suc (length (people (tabs s)))"
  using assms
  by (auto simp: resolve_person_apply split: if_splits list.splits option.splits)

lemma upsert_person_second_call:
  assumes "upsert_person (VDict d) s = (Inr r, s1)"
    and "person_name d' = person_name d" and "person_en_name d' = person_en_name d"
  shows "upsert_person (VDict d') s1 = (Inr r, s1)"
proof (cases "person_name d")
  case None
  with assms show ?thesis by (simp add: upsert_person_def ret_def)
next
  case (Some name)
  with assms show ?thesis
    by (simp add: upsert_person_def resolve_person_second_call)
qed

lemma upsert_person_one_insert:
  assumes "upsert_person p s = (r, s1)"
  shows "length (people (tabs s1)) \<le> Suc (length (people (tabs s)))"
proof (cases p)
  case (VDict d)
  show ?thesis
  proof (cases "person_name d")
    case None
    with assms VDict show ?thesis by (simp add: upsert_person_def ret_def)
  next
    case (Some name)
    with assms VDict show ?thesis
      by (simp add: upsert_person_def resolve_person_one_insert)
  qed
qed (use assms in \<open>simp_all add: upsert_person_def raise_def\<close>)

lemma country_second_call:
  assumes "get_or_create_country name s = (Inr r, s1)" and "name_key name' = name_key name"
  shows "get_or_create_country name' s1 = (Inr r, s1)"
proof (cases "name_key name = []")
  case True
  with assms show ?thesis by (simp add: get_or_create_country_apply)
next
  case nonempty: False
  show ?thesis
  proof (cases "cache_countries s (name_key name)")
    case (Some cid)
    with assms nonempty have "r = Some cid" "s1 = s"
      by (simp_all add: get_or_create_country_apply)
    with Some nonempty assms(2) show ?thesis by (simp add: get_or_create_country_apply)
  next
    case None
    with assms nonempty have c: "cache_countries s1 (name_key name) = r \<and> r \<noteq> None"
      by (auto simp: get_or_create_country_apply Let_def id_truthy_def split: if_splits option.splits)
    then obtain cid where "r = Some cid" "cache_countries s1 (name_key name) = Some cid"
      by auto
    then show ?thesis using nonempty assms(2)
      by (simp add: get_or_create_country_apply)
  qed
qed

lemma country_one_insert:
  assumes "get_or_create_country name s = (r, s1)"
  shows "length (countries (tabs s1)) \<le> Suc (length (countries (tabs s)))"
  using assms
  by (auto simp: get_or_create_country_apply Let_def split: if_splits option.splits)

lemma key_France: "name_key '' France '' = ''France''" "name_key ''France'' = ''France''"
  by (simp_all add: name_key_eq py_strip_def is_space_def)

lemma fst_country_France:
  "fst (get_or_create_country ''France'' (new_repo (key_schema True) no_tables first_ids)) = Inr (Some 1)"
  by (simp add: get_or_create_country_apply key_France new_repo_def no_tables_def first_ids_def
      id_truthy_def)

lemma ann_name:
  "person_name [(''name'', VStr ''Ann''), (''photo'', VStr ''a.jpg'')] = Some ''Ann''"
  "person_name [(''name'', VStr '' Ann''), (''photo'', VStr ''b.jpg'')] = Some ''Ann''"
  "person_en_name [(''name'', VStr ''Ann''), (''photo'', VStr ''a.jpg'')] = None"
  "person_en_name [(''name'', VStr '' Ann''), (''photo'', VStr ''b.jpg'')] = None"
  by (simp_all add: person_name_def person_en_name_def normalize_text_def dict_get_def py_str_def
      py_strip_def is_space_def opt_or_def truncate_text_def)

lemma fst_person_Ann:
  "fst (upsert_person (VDict [(''name'', VStr ''Ann''), (''photo'', VStr ''a.jpg'')])
          (new_repo (key_schema True) no_tables first_ids)) = Inr (Some 1)"
  by (simp add: upsert_person_def ann_name resolve_person_apply new_repo_def no_tables_def
      first_ids_def)

text \<open>
  Claim C4. A resolver called twice with the same natural key returns the same identifier
  both times and inserts the underlying row at most once: when the first call returns, a
  further call with an equal key (the normalized country name; the pair of normalized
  name and english name of a person) returns the same result and leaves the whole state,
  store included, as it is, and the first call has added at most one row.
\<close>

theorem resolver_idempotent:
  "(get_or_create_country name s = (Inr r, s1) \<and> name_key name' = name_key name \<longrightarrow>
      get_or_create_country name' s1 = (Inr r, s1)
      \<and> length (countries (tabs s1)) \<le> Suc (length (countries (tabs s))))
   \<and> (upsert_person (VDict d) s = (Inr r, s2)
       \<and> person_name d' = person_name d \<and> person_en_name d' = person_en_name d \<longrightarrow>
      upsert_person (VDict d') s2 = (Inr r, s2)
      \<and> length (people (tabs s2)) \<le> Suc (length (people (tabs s))))"
  using country_second_call country_one_insert upsert_person_second_call upsert_person_one_insert
  by blast

theorem resolver_idempotent_witness:
  "fst (get_or_create_country ''France'' (new_repo (key_schema True) no_tables first_ids))
     = Inr (Some 1)
   \<and> get_or_create_country '' France ''
        (snd (get_or_create_country ''France'' (new_repo (key_schema True) no_tables first_ids)))
     = (Inr (Some 1),
        snd (get_or_create_country ''France'' (new_repo (key_schema True) no_tables first_ids)))
   \<and> fst (upsert_person (VDict [(''name'', VStr ''Ann''), (''photo'', VStr ''a.jpg'')])
          (new_repo (key_schema True) no_tables first_ids)) = Inr (Some 1)
   \<and> upsert_person (VDict [(''name'', VStr '' Ann''), (''photo'', VStr ''b.jpg'')])
        (snd (upsert_person (VDict [(''name'', VStr ''Ann''), (''photo'', VStr ''a.jpg'')])
               (new_repo (key_schema True) no_tables first_ids)))
     = (Inr (Some 1),
        snd (upsert_person (VDict [(''name'', VStr ''Ann''), (''photo'', VStr ''a.jpg'')])
               (new_repo (key_schema True) no_tables first_ids)))"
proof -
  let ?s0 = "new_repo (key_schema True) no_tables first_ids"
  let ?ann = "[(''name'', VStr ''Ann''), (''photo'', VStr ''a.jpg'')]"
  let ?ann' = "[(''name'', VStr '' Ann''), (''photo'', VStr ''b.jpg'')]"
  have c: "get_or_create_country ''France'' ?s0
             = (Inr (Some 1), snd (get_or_create_country ''France'' ?s0))"
    using fst_country_France by (simp add: prod_eq_iff)
  have p: "upsert_person (VDict ?ann) ?s0 = (Inr (Some 1), snd (upsert_person (VDict ?ann) ?s0))"
    using fst_person_Ann by (simp add: prod_eq_iff)
  have k: "name_key '' France '' = name_key ''France''"
    by (simp add: key_France)
  have n: "person_name ?ann' = person_name ?ann" "person_en_name ?ann' = person_en_name ?ann"
    by (simp_all add: ann_name)
  from resolver_idempotent [of "''France''" ?s0 "Some 1" "snd (get_or_create_country ''France'' ?s0)"
      "'' France ''" ?ann "snd (upsert_person (VDict ?ann) ?s0)" ?ann'] c p k n
  show ?thesis using fst_country_France fst_person_Ann by simp
qed

subsection \<open>Updating a person\<close>

lemma ann_doc_fields:
  "person_name ann_doc = Some ''Ann''"
  "person_en_name ann_doc = None"
  "normalize_text (dict_get ann_doc ''photo'') = Some ''b.jpg''"
  "parse_mongo_date (dict_get ann_doc ''birthday'') = None"
  "parse_mongo_date (dict_get ann_doc ''death'') = None"
  "birth_place_of (dict_get ann_doc ''birthPlace'') = None"
  by (simp_all add: ann_doc_def person_name_def person_en_name_def normalize_text_def
      dict_get_def py_str_def py_strip_def is_space_def opt_or_def truncate_text_def
      parse_mongo_date_def birth_place_of_def truthy_def strip_comma_space_def)

lemma ann_repo_fields:
  "person_cache ann_repo k = None"
  "aborted ann_repo = False"
  "people (tabs ann_repo) = [ann_row]"
  by (simp_all add: ann_repo_def new_repo_def no_tables_def)

lemma ann_row_matches: "person_matches ''Ann'' None ann_row"
  by (simp add: person_matches_def ann_row_def coalesce_text_def)

text \<open>
  Claim C2, as stated, fails: the stored photo \<open>a.jpg\<close> of a matched person is replaced
  by the differing incoming photo \<open>b.jpg\<close>.
\<close>

theorem person_update_overwrites_non_null:
  "p_photo_url ann_row = Some ''a.jpg''
   \<and> people (tabs (snd (upsert_person (VDict ann_doc) ann_repo)))
       = [ann_row\<lparr>p_photo_url := Some ''b.jpg''\<rparr>]"
  by (simp add: upsert_person_def ann_doc_fields ann_repo_fields ann_row_matches
      resolve_person_apply update_person_def coalesce_def, simp add: ann_row_def)

text \<open>
  Claim C2, amended. When the natural key of a person document matches a stored row and
  is not yet in the cache of the run, \<open>upsert_person\<close> returns the id of the first matching
  row and sets each mutable field (photo, birth date, death date, birth place) of the rows
  with that id to the incoming value when that value is not null, and leaves the field as
  it is when the incoming value is null; the id and the names are unchanged. When the
  key is already cached, nothing is updated.
\<close>

theorem person_update_coalesce:
  "(person_name d = Some name \<and> person_cache s (name, person_en_name d) = None \<and> \<not> aborted s
    \<and> filter (person_matches name (person_en_name d)) (people (tabs s)) = row # rest \<longrightarrow>
      fst (upsert_person (VDict d) s) = Inr (Some (p_id row))
      \<and> people (tabs (snd (upsert_person (VDict d) s))) =
          map (\<lambda>r. if p_id r = p_id row
                    then update_person (normalize_text (dict_get d ''photo''))
                           (map_option date_of (parse_mongo_date (dict_get d ''birthday'')))
                           (map_option date_of (parse_mongo_date (dict_get d ''death'')))
                           (birth_place_of (dict_get d ''birthPlace'')) r
                    else r) (people (tabs s)))
   \<and> (person_cache s (name, person_en_name d) = Some pid \<and> person_name d = Some name \<longrightarrow>
        upsert_person (VDict d) s = (Inr (Some pid), s))
   \<and> p_photo_url (update_person photo b dd bp r)
        = (case photo of None \<Rightarrow> p_photo_url r | Some v \<Rightarrow> Some v)
   \<and> p_birth_date (update_person photo b dd bp r)
        = (case b of None \<Rightarrow> p_birth_date r | Some v \<Rightarrow> Some v)
   \<and> p_death_date (update_person photo b dd bp r)
        = (case dd of None \<Rightarrow> p_death_date r | Some v \<Rightarrow> Some v)
   \<and> p_birth_place (update_person photo b dd bp r)
        = (case bp of None \<Rightarrow> p_birth_place r | Some v \<Rightarrow> Some v)
   \<and> p_id (update_person photo b dd bp r) = p_id r
   \<and> p_name (update_person photo b dd bp r) = p_name r
   \<and> p_en_name (update_person photo b dd bp r) = p_en_name r"
  by (simp add: upsert_person_def resolve_person_apply update_person_def coalesce_def
      split: option.splits)

theorem person_update_coalesce_witness:
  "person_name ann_doc = Some ''Ann''
   \<and> person_cache ann_repo (''Ann'', person_en_name ann_doc) = None
   \<and> aborted ann_repo = False
   \<and> filter (person_matches ''Ann'' (person_en_name ann_doc)) (people (tabs ann_repo)) = [ann_row]
   \<and> fst (upsert_person (VDict ann_doc) ann_repo) = Inr (Some 1)
   \<and> people (tabs (snd (upsert_person (VDict ann_doc) ann_repo)))
       = [update_person (Some ''b.jpg'') None None None ann_row]
   \<and> p_photo_url (update_person (Some ''b.jpg'') None None None ann_row) = Some ''b.jpg''
   \<and> p_birth_place (update_person (Some ''b.jpg'') None None None ann_row) = Some ''Paris''"
proof -
  have h: "person_name ann_doc = Some ''Ann''"
      "person_cache ann_repo (''Ann'', person_en_name ann_doc) = None"
      "\<not> aborted ann_repo"
      "filter (person_matches ''Ann'' (person_en_name ann_doc)) (people (tabs ann_repo)) = ann_row # []"
    by (simp_all add: ann_doc_fields ann_repo_fields ann_row_matches)
  note t = person_update_coalesce [of ann_doc "''Ann''" ann_repo ann_row "[]" 0
      "Some ''b.jpg''" None None None ann_row]
  from t h have "fst (upsert_person (VDict ann_doc) ann_repo) = Inr (Some (p_id ann_row))"
    and "people (tabs (snd (upsert_person (VDict ann_doc) ann_repo))) =
          map (\<lambda>r. if p_id r = p_id ann_row
                    then update_person (normalize_text (dict_get ann_doc ''photo''))
                           (map_option date_of (parse_mongo_date (dict_get ann_doc ''birthday'')))
                           (map_option date_of (parse_mongo_date (dict_get ann_doc ''death'')))
                           (birth_place_of (dict_get ann_doc ''birthPlace'')) r
                    else r) (people (tabs ann_repo))"
    by blast+
  moreover from t have "p_photo_url (update_person (Some ''b.jpg'') None None None ann_row) = Some ''b.jpg''"
    and "p_birth_place (update_person (Some ''b.jpg'') None None None ann_row) = p_birth_place ann_row"
    by simp_all
  ultimately show ?thesis using h
    by (simp add: ann_doc_fields ann_repo_fields, simp add: ann_row_def)
qed


subsection \<open>Seasons\<close>

lemma dict_get_remove_key: "k \<noteq> k0 \<Longrightarrow> dict_get (remove_key k0 d) k = dict_get d k"
  by (induction d) (auto simp: dict_get_def remove_key_def)

lemma dict_get_remove_key_same: "dict_get (remove_key k0 d) k0 = VNone"
proof -
  have "map_of (filter (\<lambda>kv. fst kv \<noteq> k0) d) k0 = None"
    by (induction d) auto
  then show ?thesis by (simp add: dict_get_def remove_key_def)
qed

lemma season_number_removed: "season_number (remove_key ''number'' d) = 1"
  by (simp add: season_number_def dict_get_remove_key_same as_int_def int_or_def)

lemma upsert_season_number_zero:
  assumes "as_int (dict_get d ''number'') = Some 0"
  shows "upsert_season d s = upsert_season (remove_key ''number'' d) s"
proof -
  have n: "season_number d = 1"
    using assms by (simp add: season_number_def int_or_def)
  show ?thesis
    unfolding upsert_season_def
    by (simp add: n season_number_removed dict_get_remove_key cong: option.case_cong if_cong)
qed

lemma upsert_season_movie_zero:
  assumes "as_int (dict_get d ''movieId'') = Some 0"
  shows "upsert_season d s = (Inr None, s)"
  using assms by (simp add: upsert_season_def ret_def)

lemma episode_number_zero_kept:
  assumes "as_int (dict_get e ''number'') = Some 0"
    and "episode_rows sid (VDict e # es) = Inr rows"
  shows "\<exists>r rest. rows = r # rest \<and> fst r = sid \<and> fst (snd r) = 0"
  using assms
  by (auto simp: ebind_def episode_number_def int_or_def split: sum.splits)


lemma pages_Nil: "pages n [] = []"
  by (simp add: pages.simps)

lemma pages_small: "xs \<noteq> [] \<Longrightarrow> length xs \<le> 100 \<Longrightarrow> pages 100 xs = [xs]"
  by (subst pages.simps) (simp add: pages_Nil)

lemma as_int_zero_text: "as_int (VStr ''0'') = Some 0"
  by (simp add: as_int_def int_of_text_def replace_comma_def py_float_of_str_def py_strip_def
      is_space_def take_sign_def py_lower_def lower_char_def float_number_def take_digits_def
      is_digit_def digit_val_def digits_value_def take_exponent_def pow10_def py_int_of_float_def)

lemma as_int_plain: "as_int VNone = None" "as_int (VInt i) = Some i"
  by (simp_all add: as_int_def py_int_def)

lemma normalize_text_VNone: "normalize_text VNone = None"
  by (simp add: normalize_text_def)

lemma normalize_text_VStr:
  "normalize_text (VStr t) = (if py_strip t = [] then None else Some (py_strip t))"
  by (simp add: normalize_text_def py_str_def)

lemma parse_mongo_date_VNone: "parse_mongo_date VNone = None"
  by (simp add: parse_mongo_date_def)

lemma as_dict_plain: "as_dict VNone = Inr []" "as_dict (VDict d) = Inr d"
  by (simp_all add: as_dict_def or_empty_def truthy_def)

lemma or_list_plain: "or_list VNone = VList []" "or_list (VList xs) = VList xs"
  by (simp_all add: or_list_def truthy_def)

lemma dict_get_Nil: "dict_get [] k = VNone"
  by (simp add: dict_get_def)

lemmas plain_values = as_int_plain normalize_text_VNone parse_mongo_date_VNone as_dict_plain
  or_list_plain dict_get_Nil

lemma season_doc_number: "as_int (dict_get season_doc ''number'') = Some 0"
  by (simp add: season_doc_def dict_get_def as_int_zero_text)

lemma zero_movie_doc: "as_int (dict_get [(''movieId'', VStr ''0'')] ''movieId'') = Some 0"
  by (simp add: dict_get_def as_int_zero_text)

lemma pilot_fields:
  "dict_get [(''number'', VStr ''0''), (''name'', VStr ''Pilot'')] ''number'' = VStr ''0''"
  "dict_get [(''number'', VStr ''0''), (''name'', VStr ''Pilot'')] ''name'' = VStr ''Pilot''"
  "dict_get [(''number'', VStr ''0''), (''name'', VStr ''Pilot'')] ''enName'' = VNone"
  "dict_get [(''number'', VStr ''0''), (''name'', VStr ''Pilot'')] ''description'' = VNone"
  "dict_get [(''number'', VStr ''0''), (''name'', VStr ''Pilot'')] ''airDate'' = VNone"
  "dict_get [(''number'', VStr ''0''), (''name'', VStr ''Pilot'')] ''duration'' = VNone"
  "dict_get [(''number'', VStr ''0''), (''name'', VStr ''Pilot'')] ''still'' = VNone"
  by (simp_all add: dict_get_def)

lemma pilot_number: "as_int (dict_get [(''number'', VStr ''0''), (''name'', VStr ''Pilot'')] ''number'') = Some 0"
  by (simp add: pilot_fields as_int_zero_text)

lemma strip_Pilot: "py_strip ''Pilot'' = ''Pilot''"
  by (simp add: py_strip_def is_space_def)

lemma pilot_rows:
  "episode_rows 1 [VDict [(''number'', VStr ''0''), (''name'', VStr ''Pilot'')]] =
     Inr [(1, 0, Some ''Pilot'', None, None, None, None, None, None)]"
  by (simp add: ebind_def episode_number_def pilot_fields as_int_zero_text int_or_def
      plain_values normalize_text_VStr strip_Pilot)

lemma season_doc_fields:
  "dict_get season_doc ''movieId'' = VInt 7"
  "dict_get season_doc ''episodesCount'' = VNone"
  "dict_get season_doc ''airDate'' = VNone"
  "dict_get season_doc ''poster'' = VNone"
  "dict_get season_doc ''description'' = VNone"
  "dict_get season_doc ''episodes'' = VList [VDict [(''number'', VStr ''0''), (''name'', VStr ''Pilot'')]]"
  by (simp_all add: season_doc_def dict_get_def)

lemma season_doc_tables:
  "map s_number (seasons (tabs (snd (upsert_season season_doc movie7_repo)))) = [1]
   \<and> map (\<lambda>r. fst (snd r)) (episodes (tabs (snd (upsert_season season_doc movie7_repo)))) = [0]"
proof -
  have n: "season_number season_doc = 1"
    using season_doc_number by (simp add: season_number_def int_or_def)
  show ?thesis
    by (simp add: upsert_season_def season_doc_fields n plain_values monad_defs movie_ids_def
      movie7_repo_def new_repo_def no_tables_def blank_movie_def
      upsert_season_row_def first_ids_def key_schema_def
      py_iter_def pilot_rows ebind_def
      execute_values_def pages_small insert_episodes_def episode_key_def Let_def
      del: episode_rows.simps)
qed

text \<open>
  Claim C10. In \<open>upsert_season\<close> a zero is treated as an absent key for the movie and the
  season number, but not for the episode number: a document whose \<open>movieId\<close> parses to 0
  is skipped with no write and no change of state at all; a season number that parses to
  0 becomes 1, and the document is processed exactly as the same document without the
  \<open>number\<close> field; an episode whose number parses to 0 gives an episode row with the
  number 0.
\<close>

theorem season_zero_keys:
  "(as_int (dict_get d ''movieId'') = Some 0 \<longrightarrow> upsert_season d s = (Inr None, s))
   \<and> (as_int (dict_get d ''number'') = Some 0 \<longrightarrow>
        season_number d = 1 \<and> season_number (remove_key ''number'' d) = 1
        \<and> upsert_season d s = upsert_season (remove_key ''number'' d) s)
   \<and> (as_int (dict_get e ''number'') = Some 0 \<and> episode_rows sid (VDict e # es) = Inr rows \<longrightarrow>
        (\<exists>r rest. rows = r # rest \<and> fst r = sid \<and> fst (snd r) = 0))"
  using upsert_season_movie_zero upsert_season_number_zero episode_number_zero_kept
    season_number_removed
  by (auto simp: season_number_def int_or_def)

theorem season_zero_keys_witness:
  "as_int (dict_get [(''movieId'', VStr ''0'')] ''movieId'') = Some 0
   \<and> upsert_season [(''movieId'', VStr ''0'')] movie7_repo = (Inr None, movie7_repo)
   \<and> as_int (dict_get season_doc ''number'') = Some 0
   \<and> upsert_season season_doc movie7_repo = upsert_season (remove_key ''number'' season_doc) movie7_repo
   \<and> map s_number (seasons (tabs (snd (upsert_season season_doc movie7_repo)))) = [1]
   \<and> as_int (dict_get [(''number'', VStr ''0''), (''name'', VStr ''Pilot'')] ''number'') = Some 0
   \<and> map (\<lambda>r. fst (snd r)) (episodes (tabs (snd (upsert_season season_doc movie7_repo)))) = [0]"
proof -
  note t1 = season_zero_keys [of "[(''movieId'', VStr ''0'')]" movie7_repo
      "[(''number'', VStr ''0''), (''name'', VStr ''Pilot'')]" 1 "[]"
      "[(1, 0, Some ''Pilot'', None, None, None, None, None, None)]"]
  note t2 = season_zero_keys [of season_doc movie7_repo
      "[(''number'', VStr ''0''), (''name'', VStr ''Pilot'')]" 1 "[]"
      "[(1, 0, Some ''Pilot'', None, None, None, None, None, None)]"]
  from t1 zero_movie_doc
  have a: "upsert_season [(''movieId'', VStr ''0'')] movie7_repo = (Inr None, movie7_repo)"
    by blast
  from t2 season_doc_number
  have b: "upsert_season season_doc movie7_repo = upsert_season (remove_key ''number'' season_doc) movie7_repo"
    by blast
  show ?thesis
    using a b zero_movie_doc season_doc_number pilot_number season_doc_tables by simp
qed


subsection \<open>Titles\<close>

lemma movie_title_eq:
  "movie_title d =
     (case normalize_text (dict_get d ''name'') of
        Some t \<Rightarrow> Some t
      | None \<Rightarrow> (case normalize_text (dict_get d ''alternativeName'') of
                   Some t \<Rightarrow> Some t
                 | None \<Rightarrow> normalize_text (dict_get d ''enName'')))"
  by (simp add: movie_title_def opt_or_def split: option.splits)

lemma normalize_text_None_iff:
  "normalize_text v = None \<longleftrightarrow> v = VNone \<or> py_strip (py_str v) = []"
  by (cases v) (simp_all add: normalize_text_def Let_def)

lemma movie_columns_title:
  assumes "movie_columns d t = Inr row"
  shows "m_title row = (if 500 < length t then take 500 t else t)"
  using assms
  by (auto simp: movie_columns_def ebind_def split: sum.splits)

lemma movie_step_no_title:
  assumes "movie_title d = None" and "\<not> aborted s"
  shows "movie_step d (i, k) s = ((i, k + 1), s\<lparr>clock := Suc (clock s)\<rparr>)"
  using assms
  by (simp add: movie_step_def time_ns_def andthen_def savepoint_def insert_movie_core_def
      ret_def truthy_id_def release_savepoint_def Let_def)

lemma insert_movie_core_no_id:
  assumes "movie_title d = Some t" and "movie_columns d t = Inr row" and "\<not> aborted s"
    and "as_int (dict_get d ''id'') = None" and "next_movie (seqs s) \<notin> movie_ids (tabs s)"
  shows "fst (insert_movie_core d s) = Inr (Some (next_movie (seqs s)))"
    and "movies (tabs (snd (insert_movie_core d s))) =
           movies (tabs s) @ [row\<lparr>m_id := next_movie (seqs s)\<rparr>]"
  using assms
  by (simp_all add: insert_movie_core_def monad_defs insert_movie_row_def Let_def)

lemma insert_movie_core_with_id:
  assumes "movie_title d = Some t" and "movie_columns d t = Inr row" and "\<not> aborted s"
    and "as_int (dict_get d ''id'') = Some i"
  shows "fst (insert_movie_core d s) = Inr (Some i)"
    and "movies (tabs (snd (insert_movie_core d s))) =
           (if i \<in> movie_ids (tabs s)
            then map (\<lambda>r. if m_id r = i then row\<lparr>m_id := i\<rparr> else r) (movies (tabs s))
            else movies (tabs s) @ [row\<lparr>m_id := i\<rparr>])"
  using assms
  by (simp_all add: insert_movie_core_def monad_defs upsert_movie_row_def Let_def)


lemma strip_a: "py_strip (replicate n CHR ''a'') = replicate n CHR ''a''"
  by (simp add: py_strip_def is_space_def dropWhile_replicate)

lemma sanitize_rating_VNone: "sanitize_rating (float_val (as_float VNone)) = Inr None"
  by (simp add: float_val_def as_float_def sanitize_rating_def)

lemma money_of_Nil: "money_of [] = (None, None)"
  by (simp add: money_of_def plain_values truncate_text_def)

lemma long_doc_columns:
  "movie_columns long_doc t = Inr (blank_movie 0 (if 500 < length t then take 500 t else t))"
  by (simp add: movie_columns_def long_doc_def dict_get_def ebind_def plain_values
      sanitize_rating_VNone money_of_Nil sanitize_age_rating_def sanitize_year_def
      truncate_text_def opt_or_def blank_movie_def)

lemma long_doc_title: "movie_title long_doc = Some (replicate 501 CHR ''a'')"
  by (simp add: movie_title_eq long_doc_def dict_get_def normalize_text_VStr strip_a)

lemma long_doc_id: "as_int (dict_get long_doc ''id'') = None"
  by (simp add: long_doc_def dict_get_def plain_values)

lemma empty_repo_fields:
  "aborted empty_repo = False" "movies (tabs empty_repo) = []"
  "next_movie (seqs empty_repo) = 1" "movie_ids (tabs empty_repo) = {}"
  by (simp_all add: empty_repo_def new_repo_def no_tables_def first_ids_def movie_ids_def)

text \<open>
  Claim C8, as stated, fails: for a movie whose name has 501 characters the stored title
  is not that name, the first non-empty of the three, but its first 500 characters.
\<close>

theorem long_title_is_cut:
  "movie_title long_doc = Some (replicate 501 CHR ''a'')
   \<and> map m_title (movies (tabs (snd (insert_movie_core long_doc empty_repo))))
       = [replicate 500 CHR ''a'']"
  using insert_movie_core_no_id(2) [of long_doc "replicate 501 CHR ''a''"
      "blank_movie 0 (replicate 500 CHR ''a'')" empty_repo]
  by (simp add: long_doc_title long_doc_columns long_doc_id empty_repo_fields blank_movie_def)

text \<open>
  Claim C8, amended. The title of a movie document is the first of primary name,
  alternate name and english name that is non-empty after trimming; the title stored with
  the core row is that title cut to its first 500 characters. A document in which all
  three are absent or empty is skipped entirely: its turn of the batch loop counts one
  skip, leaves the inserted counter, every table, sequence, cache and statistics counter
  as they are, and only the clock that names the savepoint has advanced.
\<close>

theorem title_derivation_and_skip:
  "movie_title d =
     (case normalize_text (dict_get d ''name'') of
        Some t \<Rightarrow> Some t
      | None \<Rightarrow> (case normalize_text (dict_get d ''alternativeName'') of
                   Some t \<Rightarrow> Some t
                 | None \<Rightarrow> normalize_text (dict_get d ''enName'')))
   \<and> (normalize_text v = None \<longleftrightarrow> v = VNone \<or> py_strip (py_str v) = [])
   \<and> (movie_title d = Some t \<and> movie_columns d t = Inr row \<and> \<not> aborted s
       \<and> as_int (dict_get d ''id'') = None \<and> next_movie (seqs s) \<notin> movie_ids (tabs s) \<longrightarrow>
        fst (insert_movie_core d s) = Inr (Some (next_movie (seqs s)))
        \<and> movies (tabs (snd (insert_movie_core d s))) =
            movies (tabs s) @ [row\<lparr>m_id := next_movie (seqs s)\<rparr>]
        \<and> m_title row = (if 500 < length t then take 500 t else t))
   \<and> (movie_title d = Some t \<and> movie_columns d t = Inr row \<and> \<not> aborted s
       \<and> as_int (dict_get d ''id'') = Some i \<longrightarrow>
        fst (insert_movie_core d s) = Inr (Some i)
        \<and> movies (tabs (snd (insert_movie_core d s))) =
            (if i \<in> movie_ids (tabs s)
             then map (\<lambda>r. if m_id r = i then row\<lparr>m_id := i\<rparr> else r) (movies (tabs s))
             else movies (tabs s) @ [row\<lparr>m_id := i\<rparr>])
        \<and> m_title row = (if 500 < length t then take 500 t else t))
   \<and> (movie_title d = None \<and> \<not> aborted s \<longrightarrow>
        movie_step d (inserted, skipped) s = ((inserted, skipped + 1), s\<lparr>clock := Suc (clock s)\<rparr>)
        \<and> process_movie_batch [d] s = (0, s\<lparr>clock := Suc (clock s)\<rparr>))"
proof (intro conjI impI)
  show "movie_title d =
     (case normalize_text (dict_get d ''name'') of
        Some t \<Rightarrow> Some t
      | None \<Rightarrow> (case normalize_text (dict_get d ''alternativeName'') of
                   Some t \<Rightarrow> Some t
                 | None \<Rightarrow> normalize_text (dict_get d ''enName'')))"
    by (rule movie_title_eq)
  show "normalize_text v = None \<longleftrightarrow> v = VNone \<or> py_strip (py_str v) = []"
    by (rule normalize_text_None_iff)
next
  assume a: "movie_title d = Some t \<and> movie_columns d t = Inr row \<and> \<not> aborted s
       \<and> as_int (dict_get d ''id'') = None \<and> next_movie (seqs s) \<notin> movie_ids (tabs s)"
  then show "fst (insert_movie_core d s) = Inr (Some (next_movie (seqs s)))"
    and "movies (tabs (snd (insert_movie_core d s))) =
            movies (tabs s) @ [row\<lparr>m_id := next_movie (seqs s)\<rparr>]"
    and "m_title row = (if 500 < length t then take 500 t else t)"
    using insert_movie_core_no_id [of d t row s] movie_columns_title [of d t row] by simp_all
next
  assume a: "movie_title d = Some t \<and> movie_columns d t = Inr row \<and> \<not> aborted s
       \<and> as_int (dict_get d ''id'') = Some i"
  then show "fst (insert_movie_core d s) = Inr (Some i)"
    and "movies (tabs (snd (insert_movie_core d s))) =
            (if i \<in> movie_ids (tabs s)
             then map (\<lambda>r. if m_id r = i then row\<lparr>m_id := i\<rparr> else r) (movies (tabs s))
             else movies (tabs s) @ [row\<lparr>m_id := i\<rparr>])"
    and "m_title row = (if 500 < length t then take 500 t else t)"
    using insert_movie_core_with_id [of d t row s i] movie_columns_title [of d t row] by simp_all
next
  assume a: "movie_title d = None \<and> \<not> aborted s"
  then show "movie_step d (inserted, skipped) s = ((inserted, skipped + 1), s\<lparr>clock := Suc (clock s)\<rparr>)"
    by (simp add: movie_step_no_title)
  from a show "process_movie_batch [d] s = (0, s\<lparr>clock := Suc (clock s)\<rparr>)"
    by (simp add: process_movie_batch_def movie_step_no_title)
qed

lemma untitled_doc_title: "movie_title untitled_doc = None"
  by (simp add: movie_title_eq untitled_doc_def dict_get_def normalize_text_VStr
      normalize_text_VNone py_strip_def is_space_def)

theorem title_derivation_and_skip_witness:
  "movie_title long_doc = Some (replicate 501 CHR ''a'')
   \<and> movie_columns long_doc (replicate 501 CHR ''a'') = Inr (blank_movie 0 (replicate 500 CHR ''a''))
   \<and> aborted empty_repo = False
   \<and> as_int (dict_get long_doc ''id'') = None
   \<and> next_movie (seqs empty_repo) \<notin> movie_ids (tabs empty_repo)
   \<and> movies (tabs (snd (insert_movie_core long_doc empty_repo))) = [blank_movie 1 (replicate 500 CHR ''a'')]
   \<and> movie_title untitled_doc = None
   \<and> movie_step untitled_doc (0, 0) empty_repo = ((0, 1), empty_repo\<lparr>clock := Suc (clock empty_repo)\<rparr>)
   \<and> process_movie_batch [untitled_doc] empty_repo = (0, empty_repo\<lparr>clock := Suc (clock empty_repo)\<rparr>)"
proof -
  have c: "movie_columns long_doc (replicate 501 CHR ''a'') = Inr (blank_movie 0 (replicate 500 CHR ''a''))"
    by (simp add: long_doc_columns)
  have h: "\<not> aborted empty_repo" "next_movie (seqs empty_repo) \<notin> movie_ids (tabs empty_repo)"
    by (simp_all add: empty_repo_fields)
  note t1 = title_derivation_and_skip [of long_doc VNone "replicate 501 CHR ''a''"
      "blank_movie 0 (replicate 500 CHR ''a'')" empty_repo 0 0 0]
  note t2 = title_derivation_and_skip [of untitled_doc VNone "[]" "blank_movie 0 []" empty_repo 0 0 0]
  from t1 long_doc_title c h long_doc_id
  have m: "movies (tabs (snd (insert_movie_core long_doc empty_repo))) =
            movies (tabs empty_repo) @ [(blank_movie 0 (replicate 500 CHR ''a''))\<lparr>m_id := next_movie (seqs empty_repo)\<rparr>]"
    by blast
  from t2 untitled_doc_title h
  have u: "movie_step untitled_doc (0, 0) empty_repo = ((0, 0 + 1), empty_repo\<lparr>clock := Suc (clock empty_repo)\<rparr>)"
      "process_movie_batch [untitled_doc] empty_repo = (0, empty_repo\<lparr>clock := Suc (clock empty_repo)\<rparr>)"
    by blast+
  show ?thesis
    using m u long_doc_title c long_doc_id untitled_doc_title
    by (simp add: empty_repo_fields blank_movie_def)
qed

end
